theory Spec2Isabelle
  imports
    Main
    "HOL-Library.Word"
    "HOL-Library.Char_ord"
    "HOL-Library.List_Lexorder"
    "HOL-Library.Multiset"
begin

unbundle bit_operations_syntax

section \<open>JSON values and the Python primitives the scripts rely on\<close>

text \<open>
  Rows fetched from the remote store and the contents of backup files are JSON documents.
  The scripts handle them as untyped Python values (\<^verbatim>\<open>isinstance(data, dict)\<close>,
  \<^verbatim>\<open>data.get('_unchanged')\<close>), so the model keeps them untyped as well.  A Python
  \<^verbatim>\<open>dict\<close> is an association list with distinct keys in insertion order (the order is
  visible through \<^verbatim>\<open>str(row)\<close>); \<^verbatim>\<open>None\<close> is \<open>JNull\<close>.  Strings are lists of 8-bit
  characters read as the code points 0 to 255.  Floating point numbers are not modelled.
\<close>

datatype json =
    JNull
  | JBool bool
  | JInt int
  | JStr string
  | JArr "json list"
  | JObj "(string \<times> json) list"

datatype py_error =
    KeyError string
  | TypeError
  | AttributeError
  | ValueError
  | IOError

text \<open>Truth value testing: \<^verbatim>\<open>if x:\<close> and \<^verbatim>\<open>not x\<close>.\<close>

fun truthy :: "json \<Rightarrow> bool" where
  "truthy JNull = False"
| "truthy (JBool b) = b"
| "truthy (JInt n) = (n \<noteq> 0)"
| "truthy (JStr s) = (s \<noteq> [])"
| "truthy (JArr xs) = (xs \<noteq> [])"
| "truthy (JObj kvs) = (kvs \<noteq> [])"

text \<open>\<^verbatim>\<open>d.get(k)\<close> on a dict, with \<^verbatim>\<open>None\<close> for a missing key.\<close>

definition dict_get :: "(string \<times> json) list \<Rightarrow> string \<Rightarrow> json" where
  "dict_get kvs k = (case map_of kvs k of None \<Rightarrow> JNull | Some v \<Rightarrow> v)"

text \<open>\<^verbatim>\<open>x.get(k)\<close> on an arbitrary value: only a dict has the method.\<close>

fun py_get :: "json \<Rightarrow> string \<Rightarrow> py_error + json" where
  "py_get (JObj kvs) k = Inr (dict_get kvs k)"
| "py_get _ k = Inl AttributeError"

text \<open>\<^verbatim>\<open>x[k]\<close> with a string key.\<close>

fun py_subscript :: "json \<Rightarrow> string \<Rightarrow> py_error + json" where
  "py_subscript (JObj kvs) k = (case map_of kvs k of None \<Rightarrow> Inl (KeyError k) | Some v \<Rightarrow> Inr v)"
| "py_subscript _ k = Inl TypeError"

text \<open>\<^verbatim>\<open>isinstance(data, dict) and data.get(flag)\<close>, the test for the marker entries.\<close>

fun has_flag :: "json \<Rightarrow> string \<Rightarrow> bool" where
  "has_flag (JObj kvs) flag = truthy (dict_get kvs flag)"
| "has_flag _ flag = False"

text \<open>The dict stored under a key of a dict, when there is one.\<close>

definition dict_get_obj :: "json \<Rightarrow> string \<Rightarrow> (string \<times> json) list option" where
  "dict_get_obj x k =
     (case x of
        JObj kvs \<Rightarrow> (case map_of kvs k of Some (JObj d) \<Rightarrow> Some d | _ \<Rightarrow> None)
      | _ \<Rightarrow> None)"

subsection \<open>Text\<close>

fun join :: "string \<Rightarrow> string list \<Rightarrow> string" where
  "join sep [] = []"
| "join sep [x] = x"
| "join sep (x # y # ys) = x @ sep @ join sep (y # ys)"

definition hex_digit :: "int \<Rightarrow> char" where
  "hex_digit d = ''0123456789abcdef'' ! nat d"

definition hex_byte :: "int \<Rightarrow> string" where
  "hex_byte b = [hex_digit (b div 16), hex_digit (b mod 16)]"

function pos_digits :: "int \<Rightarrow> string" where
  "pos_digits n =
     (if n < 10 then [hex_digit n] else pos_digits (n div 10) @ [hex_digit (n mod 10)])"
  by pat_completeness auto
termination
  by (relation "measure nat") auto

declare pos_digits.simps [simp del]

definition int_str :: "int \<Rightarrow> string" where
  "int_str n = (if n < 0 then CHR ''-'' # pos_digits (- n) else pos_digits n)"

text \<open>\<^verbatim>\<open>s.lower()\<close> on code points 0 to 255.\<close>

definition lower_char :: "char \<Rightarrow> char" where
  "lower_char c = (let n = (of_char c :: int)
     in if (65 \<le> n \<and> n \<le> 90) \<or> (192 \<le> n \<and> n \<le> 222 \<and> n \<noteq> 215)
        then char_of (n + 32) else c)"

definition lower :: "string \<Rightarrow> string" where
  "lower s = map lower_char s"

text \<open>\<^verbatim>\<open>needle in haystack\<close> on strings.\<close>

fun str_in :: "string \<Rightarrow> string \<Rightarrow> bool" where
  "str_in needle [] = (needle = [])"
| "str_in needle (c # cs) = (take (length needle) (c # cs) = needle \<or> str_in needle cs)"

text \<open>\<^verbatim>\<open>s.replace(old, new)\<close> for a non-empty \<open>old\<close>: every occurrence, left to right.\<close>

fun replace :: "string \<Rightarrow> string \<Rightarrow> string \<Rightarrow> string" where
  "replace old new [] = []"
| "replace old new (c # cs) =
     (if old \<noteq> [] \<and> take (length old) (c # cs) = old
      then new @ replace old new (drop (length old) (c # cs))
      else c # replace old new cs)"

text \<open>
  \<^verbatim>\<open>repr\<close> of a string: single quotes unless the text has a single quote and no double
  quote; the quote and the backslash are escaped, so are tab, newline and carriage return;
  other unprintable code points are written \<^verbatim>\<open>\xhh\<close>.
\<close>

definition repr_char :: "char \<Rightarrow> char \<Rightarrow> string" where
  "repr_char q c = (let n = (of_char c :: int)
     in if c = q \<or> n = 92 then [CHR 0x5C, c]
        else if n = 9 then [CHR 0x5C, CHR ''t'']
        else if n = 10 then [CHR 0x5C, CHR ''n'']
        else if n = 13 then [CHR 0x5C, CHR ''r'']
        else if n < 32 \<or> (127 \<le> n \<and> n \<le> 160) \<or> n = 173 then [CHR 0x5C, CHR ''x''] @ hex_byte n
        else [c])"

definition repr_str :: "string \<Rightarrow> string" where
  "repr_str s = (let q = (if CHR 0x27 \<in> set s \<and> CHR 0x22 \<notin> set s then CHR 0x22 else CHR 0x27)
     in [q] @ concat (map (repr_char q) s) @ [q])"

fun py_repr :: "json \<Rightarrow> string" where
  "py_repr JNull = ''None''"
| "py_repr (JBool b) = (if b then ''True'' else ''False'')"
| "py_repr (JInt n) = int_str n"
| "py_repr (JStr s) = repr_str s"
| "py_repr (JArr xs) = ''['' @ join '', '' (map py_repr xs) @ '']''"
| "py_repr (JObj kvs) =
     ''{'' @ join '', '' (map (\<lambda>(k, v). repr_str k @ '': '' @ py_repr v) kvs) @ ''}''"

text \<open>\<^verbatim>\<open>str(x)\<close>, also what an f-string writes for \<open>x\<close>.\<close>

fun py_str :: "json \<Rightarrow> string" where
  "py_str (JStr s) = s"
| "py_str x = py_repr x"

subsection \<open>\<^verbatim>\<open>json.dumps(value, sort_keys=True)\<close>\<close>

text \<open>
  The default separators and \<^verbatim>\<open>ensure_ascii=True\<close>: everything outside the printable ASCII
  range is escaped.  Keys are written in sorted order.
\<close>

definition json_char :: "char \<Rightarrow> string" where
  "json_char c = (let n = (of_char c :: int)
     in if n = 34 then [CHR 0x5C, CHR 0x22]
        else if n = 92 then [CHR 0x5C, CHR 0x5C]
        else if n = 10 then [CHR 0x5C, CHR ''n'']
        else if n = 13 then [CHR 0x5C, CHR ''r'']
        else if n = 9 then [CHR 0x5C, CHR ''t'']
        else if n = 8 then [CHR 0x5C, CHR ''b'']
        else if n = 12 then [CHR 0x5C, CHR ''f'']
        else if n < 32 \<or> 126 < n then [CHR 0x5C, CHR ''u'', CHR ''0'', CHR ''0''] @ hex_byte n
        else [c])"

definition json_string :: "string \<Rightarrow> string" where
  "json_string s = [CHR 0x22] @ concat (map json_char s) @ [CHR 0x22]"

lemma size_sorted_item:
  assumes "(k, v) \<in> set (sort_key fst kvs)"
  shows "size v < Suc (size_list (size_prod (\<lambda>_. 0) size) kvs)"
proof -
  from assms have "(k, v) \<in> set kvs" by simp
  then have "size_prod (\<lambda>_. 0) size (k, v) \<le> size_list (size_prod (\<lambda>_. 0) size) kvs"
    by (rule size_list_estimation') simp
  then show ?thesis by simp
qed

function json_dumps :: "json \<Rightarrow> string" where
  "json_dumps JNull = ''null''"
| "json_dumps (JBool b) = (if b then ''true'' else ''false'')"
| "json_dumps (JInt n) = int_str n"
| "json_dumps (JStr s) = json_string s"
| "json_dumps (JArr xs) = ''['' @ join '', '' (map json_dumps xs) @ '']''"
| "json_dumps (JObj kvs) =
     ''{'' @ join '', '' (map (\<lambda>(k, v). json_string k @ '': '' @ json_dumps v) (sort_key fst kvs))
       @ ''}''"
  by pat_completeness auto
termination
  by (relation "measure size") (auto simp: size_list_estimation' less_Suc_eq_le dest: size_sorted_item)

subsection \<open>\<^verbatim>\<open>hashlib.md5(bytes).hexdigest()\<close>\<close>

text \<open>
  The MD5 digest (RFC 1321) on 32-bit words.  The text handed to it by the scripts is the
  output of \<open>json_dumps\<close>, which is ASCII, so its UTF-8 encoding is the text itself.
\<close>

type_synonym u32 = "32 word"

type_synonym md5_state = "u32 \<times> u32 \<times> u32 \<times> u32"

definition md5_K :: "u32 list" where
  "md5_K =
    [0xd76aa478, 0xe8c7b756, 0x242070db, 0xc1bdceee, 0xf57c0faf, 0x4787c62a, 0xa8304613, 0xfd469501,
     0x698098d8, 0x8b44f7af, 0xffff5bb1, 0x895cd7be, 0x6b901122, 0xfd987193, 0xa679438e, 0x49b40821,
     0xf61e2562, 0xc040b340, 0x265e5a51, 0xe9b6c7aa, 0xd62f105d, 0x02441453, 0xd8a1e681, 0xe7d3fbc8,
     0x21e1cde6, 0xc33707d6, 0xf4d50d87, 0x455a14ed, 0xa9e3e905, 0xfcefa3f8, 0x676f02d9, 0x8d2a4c8a,
     0xfffa3942, 0x8771f681, 0x6d9d6122, 0xfde5380c, 0xa4beea44, 0x4bdecfa9, 0xf6bb4b60, 0xbebfbc70,
     0x289b7ec6, 0xeaa127fa, 0xd4ef3085, 0x04881d05, 0xd9d4d039, 0xe6db99e5, 0x1fa27cf8, 0xc4ac5665,
     0xf4292244, 0x432aff97, 0xab9423a7, 0xfc93a039, 0x655b59c3, 0x8f0ccc92, 0xffeff47d, 0x85845dd1,
     0x6fa87e4f, 0xfe2ce6e0, 0xa3014314, 0x4e0811a1, 0xf7537e82, 0xbd3af235, 0x2ad7d2bb, 0xeb86d391]"

definition md5_s :: "nat list" where
  "md5_s =
    [7, 12, 17, 22, 7, 12, 17, 22, 7, 12, 17, 22, 7, 12, 17, 22,
     5, 9, 14, 20, 5, 9, 14, 20, 5, 9, 14, 20, 5, 9, 14, 20,
     4, 11, 16, 23, 4, 11, 16, 23, 4, 11, 16, 23, 4, 11, 16, 23,
     6, 10, 15, 21, 6, 10, 15, 21, 6, 10, 15, 21, 6, 10, 15, 21]"

definition rotl32 :: "nat \<Rightarrow> u32 \<Rightarrow> u32" where
  "rotl32 n x = push_bit n x OR drop_bit (32 - n) x"

definition md5_step :: "u32 list \<Rightarrow> nat \<Rightarrow> md5_state \<Rightarrow> md5_state" where
  "md5_step M i st = (case st of (A, B, C, D) \<Rightarrow>
     let (F, g) =
       (if i < 16 then ((B AND C) OR (NOT B AND D), i)
        else if i < 32 then ((D AND B) OR (NOT D AND C), (5 * i + 1) mod 16)
        else if i < 48 then (B XOR C XOR D, (3 * i + 5) mod 16)
        else (C XOR (B OR NOT D), (7 * i) mod 16));
       F' = F + A + md5_K ! i + M ! g
     in (D, B + rotl32 (md5_s ! i) F', B, C))"

fun le_word :: "int list \<Rightarrow> u32" where
  "le_word [] = 0"
| "le_word (b # bs) = of_int b + push_bit 8 (le_word bs)"

fun le_bytes :: "nat \<Rightarrow> int \<Rightarrow> int list" where
  "le_bytes 0 v = []"
| "le_bytes (Suc k) v = (v mod 256) # le_bytes k (v div 256)"

fun chunks :: "nat \<Rightarrow> 'a list \<Rightarrow> 'a list list" where
  "chunks n [] = []"
| "chunks n (x # xs) =
     (if n = 0 then [] else take n (x # xs) # chunks n (drop n (x # xs)))"

definition md5_block :: "md5_state \<Rightarrow> int list \<Rightarrow> md5_state" where
  "md5_block st block = (case st of (a0, b0, c0, d0) \<Rightarrow>
     case fold (md5_step (map le_word (chunks 4 block))) [0..<64] st of
       (A, B, C, D) \<Rightarrow> (a0 + A, b0 + B, c0 + C, d0 + D))"

definition md5_pad :: "int list \<Rightarrow> int list" where
  "md5_pad msg = (let n = length msg
     in msg @ [128] @ replicate ((119 - n mod 64) mod 64) 0
            @ le_bytes 8 ((8 * int n) mod 2 ^ 64))"

definition md5_hexdigest :: "string \<Rightarrow> string" where
  "md5_hexdigest s =
     (case fold (\<lambda>blk st. md5_block st blk) (chunks 64 (md5_pad (map of_char s)))
             (0x67452301, 0xefcdab89, 0x98badcfe, 0x10325476) of
        (a, b, c, d) \<Rightarrow>
          concat (map hex_byte (concat (map (\<lambda>w. le_bytes 4 (uint w)) [a, b, c, d]))))"

section \<open>Change detection\<close>

subsection \<open>\<^verbatim>\<open>sorted(data, key=lambda x: x.get('id', str(x)))\<close>\<close>

text \<open>
  The key of a row is its \<^verbatim>\<open>id\<close> when the row has that key (whatever the value) and the text
  of the row otherwise; a value that is not a dict has no \<^verbatim>\<open>get\<close>.
\<close>

fun row_key :: "json \<Rightarrow> py_error + json" where
  "row_key (JObj kvs) =
     Inr (case map_of kvs ''id'' of None \<Rightarrow> JStr (py_str (JObj kvs)) | Some v \<Rightarrow> v)"
| "row_key _ = Inl AttributeError"

text \<open>
  Python orders integers (booleans among them, as 0 and 1) with integers and strings
  with strings.  Comparing an integer with a string, or \<^verbatim>\<open>None\<close> or a dict with
  anything, raises \<^verbatim>\<open>TypeError\<close>; a list of two or more keys cannot be sorted without
  comparing them, a shorter list is returned without any comparison.  The sort is
  stable.  Keys that are JSON arrays are treated like dicts here (Python would order
  them elementwise where the elements allow it).
\<close>

fun num_key :: "json \<Rightarrow> int option" where
  "num_key (JInt n) = Some n"
| "num_key (JBool b) = Some (if b then 1 else 0)"
| "num_key _ = None"

fun str_key :: "json \<Rightarrow> string option" where
  "str_key (JStr s) = Some s"
| "str_key _ = None"

definition sorted_by_key :: "(json \<times> json) list \<Rightarrow> py_error + json list" where
  "sorted_by_key keyed =
     (if length keyed \<le> 1 then Inr (map snd keyed)
      else if \<forall>k \<in> set (map fst keyed). num_key k \<noteq> None
        then Inr (map snd (sort_key (\<lambda>p. the (num_key (fst p))) keyed))
      else if \<forall>k \<in> set (map fst keyed). str_key k \<noteq> None
        then Inr (map snd (sort_key (\<lambda>p. the (str_key (fst p))) keyed))
      else Inl TypeError)"

fun keyed_rows :: "json list \<Rightarrow> py_error + (json \<times> json) list" where
  "keyed_rows [] = Inr []"
| "keyed_rows (x # xs) =
     (case row_key x of Inl e \<Rightarrow> Inl e
      | Inr k \<Rightarrow> (case keyed_rows xs of Inl e \<Rightarrow> Inl e | Inr ks \<Rightarrow> Inr ((k, x) # ks)))"

text \<open>
  \<open>data\<close> is whatever the caller has: a list of rows, or (from a previous backup file)
  any other JSON value.  \<^verbatim>\<open>for x in data\<close> yields the elements of a list, the keys of a
  dict and the characters of a string; a number, a boolean or \<^verbatim>\<open>None\<close> is not iterable.
\<close>

fun py_iter :: "json \<Rightarrow> py_error + json list" where
  "py_iter (JArr xs) = Inr xs"
| "py_iter (JObj kvs) = Inr (map (\<lambda>(k, v). JStr k) kvs)"
| "py_iter (JStr s) = Inr (map (\<lambda>c. JStr [c]) s)"
| "py_iter _ = Inl TypeError"

definition sorted_rows :: "json \<Rightarrow> py_error + json list" where
  "sorted_rows data =
     (case py_iter data of Inl e \<Rightarrow> Inl e
      | Inr xs \<Rightarrow> (case keyed_rows xs of Inl e \<Rightarrow> Inl e | Inr keyed \<Rightarrow> sorted_by_key keyed))"

subsection \<open>\<^verbatim>\<open>calculate_table_hash\<close>\<close>

definition calculate_table_hash :: "json \<Rightarrow> string" where
  "calculate_table_hash data =
     (if \<not> truthy data then md5_hexdigest ''empty''
      else
        let sorted_data = (case sorted_rows data of Inr rows \<Rightarrow> JArr rows | Inl e \<Rightarrow> data)
        in md5_hexdigest (json_dumps sorted_data))"

subsection \<open>\<^verbatim>\<open>compare_table_data\<close>\<close>

text \<open>
  The result dict.  The first return has only \<^verbatim>\<open>changed\<close> and \<^verbatim>\<open>reason\<close>, the second only
  \<^verbatim>\<open>changed\<close> and \<^verbatim>\<open>hash\<close>; a key that is absent is \<open>None\<close> here.
\<close>

record comparison =
  changed :: bool
  reason :: "string option"
  hash :: "string option"
  added_count :: "nat option"
  removed_count :: "nat option"
  current_count :: "nat option"
  previous_count :: "nat option"

text \<open>
  \<^verbatim>\<open>{row.get('id') for row in data if row.get('id')}\<close>: the set is kept as a list without
  repetitions.  Only a truthy \<^verbatim>\<open>id\<close> is collected; a list or a dict cannot be a set
  element (\<^verbatim>\<open>TypeError: unhashable\<close>); \<^verbatim>\<open>True\<close> is the same element as \<^verbatim>\<open>1\<close>.
\<close>

fun set_element :: "json \<Rightarrow> py_error + json" where
  "set_element (JArr xs) = Inl TypeError"
| "set_element (JObj kvs) = Inl TypeError"
| "set_element (JBool b) = Inr (JInt (if b then 1 else 0))"
| "set_element v = Inr v"

fun collect_ids :: "json list \<Rightarrow> py_error + json list" where
  "collect_ids [] = Inr []"
| "collect_ids (row # rows) =
     (case py_get row ''id'' of Inl e \<Rightarrow> Inl e
      | Inr v \<Rightarrow>
          if truthy v then
            (case set_element v of Inl e \<Rightarrow> Inl e
             | Inr i \<Rightarrow> (case collect_ids rows of Inl e \<Rightarrow> Inl e | Inr ids \<Rightarrow> Inr (List.insert i ids)))
          else collect_ids rows)"

definition id_set :: "json \<Rightarrow> py_error + json list" where
  "id_set data = (case py_iter data of Inl e \<Rightarrow> Inl e | Inr rows \<Rightarrow> collect_ids rows)"

text \<open>\<^verbatim>\<open>len(x)\<close>, for a value that was iterated before.\<close>

fun py_len :: "json \<Rightarrow> nat" where
  "py_len (JArr xs) = length xs"
| "py_len (JObj kvs) = length kvs"
| "py_len (JStr s) = length s"
| "py_len _ = 0"

definition compare_table_data :: "json list \<Rightarrow> json \<Rightarrow> py_error + comparison" where
  "compare_table_data current_data previous_data =
     (if previous_data = JNull then
        Inr \<lparr>changed = True, reason = Some ''no_previous_backup'', hash = None,
             added_count = None, removed_count = None, current_count = None,
             previous_count = None\<rparr>
      else
        let current_hash = calculate_table_hash (JArr current_data);
            previous_hash = calculate_table_hash previous_data
        in if current_hash = previous_hash then
             Inr \<lparr>changed = False, reason = None, hash = Some current_hash,
                  added_count = None, removed_count = None, current_count = None,
                  previous_count = None\<rparr>
           else
             (case id_set (JArr current_data) of Inl e \<Rightarrow> Inl e
              | Inr current_ids \<Rightarrow>
                 (case id_set previous_data of Inl e \<Rightarrow> Inl e
                  | Inr previous_ids \<Rightarrow>
                     Inr \<lparr>changed = True, reason = None, hash = Some current_hash,
                          added_count = Some (length (filter (\<lambda>i. i \<notin> set previous_ids) current_ids)),
                          removed_count = Some (length (filter (\<lambda>i. i \<notin> set current_ids) previous_ids)),
                          current_count = Some (length current_data),
                          previous_count = Some (py_len previous_data)\<rparr>)))"

section \<open>The local directories and the remote store\<close>

text \<open>
  A file of \<^verbatim>\<open>BACKUPS_DIR\<close> or \<^verbatim>\<open>SAFETY_BACKUPS_DIR\<close>: its name, its modification time and
  what \<^verbatim>\<open>json.load\<close> reads from it (\<open>None\<close> when reading it raises).  A directory is the
  list of its files in the order \<^verbatim>\<open>glob\<close> yields them; names are unique.  Of
  \<^verbatim>\<open>SUMMARIES_DIR\<close> only the file names matter.
\<close>

record backup_file =
  file_name :: string
  mtime :: nat
  content :: "json option"

text \<open>
  The write requests of the \<^verbatim>\<open>supabase\<close> client:
  \<^verbatim>\<open>client.table(t).upsert(payload).execute()\<close>,
  \<^verbatim>\<open>client.table(t).update(row).eq('id', v).execute()\<close>, and the two the scripts never
  send, \<^verbatim>\<open>insert\<close> and \<^verbatim>\<open>delete\<close>.
\<close>

datatype request =
    Upsert string json
  | Update_eq_id string json json
  | Insert string json
  | Delete_eq string string json

text \<open>
  The state the scripts act on: the three directories and the write requests sent to the
  remote store so far, oldest first.
\<close>

record state =
  backups_dir :: "backup_file list"
  safety_dir :: "backup_file list"
  summaries_dir :: "string list"
  requests :: "request list"

text \<open>
  The remote store is outside the repository.  It is a parameter: what it holds and how it
  answers may depend on every write request it has received.
  \<^item> \<open>table_rows h t\<close>: the rows \<^verbatim>\<open>select('*')\<close> serves for table \<open>t\<close>;
  \<^item> \<open>select_error h t start\<close>: the message of the exception the page request at offset
    \<open>start\<close> raises, if it raises;
  \<^item> \<open>count_result h t\<close>: the answer to \<^verbatim>\<open>select('id', count='exact')\<close>;
  \<^item> \<open>write_error h rq\<close>: the message of the exception the write request \<open>rq\<close> raises,
    if it raises.
\<close>

record remote =
  table_rows :: "request list \<Rightarrow> string \<Rightarrow> json list"
  select_error :: "request list \<Rightarrow> string \<Rightarrow> nat \<Rightarrow> string option"
  count_result :: "request list \<Rightarrow> string \<Rightarrow> string + nat"
  write_error :: "request list \<Rightarrow> request \<Rightarrow> string option"

text \<open>
  What the scripts read from their environment: whether \<^verbatim>\<open>.env\<close> exists (\<^verbatim>\<open>load_env\<close>),
  whether the credentials are set (\<^verbatim>\<open>get_supabase_client\<close>), the table list of
  \<^verbatim>\<open>get_all_tables\<close>, the clock (\<^verbatim>\<open>strftime('%Y%m%d_%H%M%S')\<close>, \<^verbatim>\<open>isoformat()\<close> and the
  modification time a file written now gets), and whether writing a local file succeeds.
\<close>

record env =
  env_file :: bool
  credentials :: bool
  all_tables :: "string list"
  now :: string
  now_iso :: string
  clock :: nat
  disk_ok :: bool

definition find_file :: "backup_file list \<Rightarrow> string \<Rightarrow> backup_file option" where
  "find_file dir name = find (\<lambda>f. file_name f = name) dir"

definition write_file :: "string \<Rightarrow> nat \<Rightarrow> json \<Rightarrow> backup_file list \<Rightarrow> backup_file list" where
  "write_file name t doc dir =
     (let file = \<lparr>file_name = name, mtime = t, content = Some doc\<rparr>
      in if name \<in> set (map file_name dir)
         then map (\<lambda>f. if file_name f = name then file else f) dir
         else dir @ [file])"

text \<open>\<^verbatim>\<open>d[k] = v\<close> on a dict: a present key keeps its place.\<close>

fun dict_set :: "('k \<times> 'v) list \<Rightarrow> 'k \<Rightarrow> 'v \<Rightarrow> ('k \<times> 'v) list" where
  "dict_set [] k v = [(k, v)]"
| "dict_set ((k', v') # kvs) k v =
     (if k' = k then (k, v) # kvs else (k', v') # dict_set kvs k v)"

text \<open>
  \<^verbatim>\<open>str(e)\<close> of a caught exception.  For a \<^verbatim>\<open>KeyError\<close> it is the \<^verbatim>\<open>repr\<close> of the key; the
  wording of the other messages is not modelled, the name of the class stands for it.
\<close>

fun error_text :: "py_error \<Rightarrow> string" where
  "error_text (KeyError k) = repr_str k"
| "error_text TypeError = ''TypeError''"
| "error_text AttributeError = ''AttributeError''"
| "error_text ValueError = ''ValueError''"
| "error_text IOError = ''IOError''"

text \<open>\<^verbatim>\<open>sorted(files, key=lambda x: x.stat().st_mtime, reverse=True)\<close>: stable.\<close>

definition newest_first :: "backup_file list \<Rightarrow> backup_file list" where
  "newest_first files = rev (sort_key mtime (rev files))"

text \<open>The patterns \<^verbatim>\<open>supabase_backup_*.json\<close> and \<^verbatim>\<open>supabase_backup_*.json*\<close>.\<close>

definition glob_json :: "string \<Rightarrow> bool" where
  "glob_json name =
     (take 16 name = ''supabase_backup_'' \<and> 21 \<le> length name
      \<and> drop (length name - 5) name = ''.json'')"

definition glob_json_any :: "string \<Rightarrow> bool" where
  "glob_json_any name =
     (take 16 name = ''supabase_backup_'' \<and> str_in ''.json'' (drop 16 name))"

section \<open>\<^verbatim>\<open>backup_supabase.py\<close>: the backup run\<close>

subsection \<open>\<^verbatim>\<open>fetch_table_data\<close>\<close>

text \<open>
  The \<^verbatim>\<open>while True\<close> loop.  \<^verbatim>\<open>range(start, start + page_size - 1)\<close> is inclusive, so a page
  is \<open>page_size\<close> rows.  Every exception raised in the loop body is caught there: the
  loop stops and the rows read so far are returned.
\<close>

function fetch_pages ::
  "remote \<Rightarrow> request list \<Rightarrow> string \<Rightarrow> nat \<Rightarrow> nat \<Rightarrow> json list \<Rightarrow> json list" where
  "fetch_pages r h t page_size start data =
     (case select_error r h t start of
        Some e \<Rightarrow> data
      | None \<Rightarrow>
          let rows = take page_size (drop start (table_rows r h t))
          in if rows = [] then data
             else if length rows < page_size then data @ rows
             else fetch_pages r h t page_size (start + page_size) (data @ rows))"
  by pat_completeness auto
termination
proof (relation "measure (\<lambda>(r, h, t, page_size, start, data). length (table_rows r h t) - start)")
  show "wf (measure (\<lambda>(r, h, t, page_size, start, data). length (table_rows r h t) - start))"
    by simp
next
  fix r h t page_size start and data rows :: "json list"
  assume rows: "rows = take page_size (drop start (table_rows r h t))"
    and "rows \<noteq> []" and "\<not> length rows < page_size"
  then have "0 < page_size" and "page_size \<le> length (table_rows r h t) - start"
    by (auto simp: min_def split: if_splits)
  then show "((r, h, t, page_size, start + page_size, data @ rows),
              (r, h, t, page_size, start, data))
      \<in> measure (\<lambda>(r, h, t, page_size, start, data). length (table_rows r h t) - start)"
    by simp
qed

declare fetch_pages.simps [simp del]

definition fetch_table_data :: "remote \<Rightarrow> request list \<Rightarrow> string \<Rightarrow> json list" where
  "fetch_table_data r h t = fetch_pages r h t 1000 0 []"

subsection \<open>\<^verbatim>\<open>get_latest_backup\<close>\<close>

definition get_latest_backup :: "state \<Rightarrow> json" where
  "get_latest_backup st =
     (case newest_first (filter (\<lambda>f. glob_json (file_name f)) (backups_dir st)) of
        [] \<Rightarrow> JNull
      | f # fs \<Rightarrow> (case content f of None \<Rightarrow> JNull | Some doc \<Rightarrow> doc))"

subsection \<open>\<^verbatim>\<open>cleanup_old_backups\<close>\<close>

definition default_keep_count :: nat where
  "default_keep_count = 288"

definition summary_name :: "string \<Rightarrow> string" where
  "summary_name name = replace ''supabase_backup_'' ''backup_summary_'' name"

definition unlink_backup :: "(string \<Rightarrow> string) \<Rightarrow> backup_file \<Rightarrow> state \<Rightarrow> state" where
  "unlink_backup summary_of file st =
     st\<lparr>summaries_dir := removeAll (summary_of (file_name file)) (summaries_dir st),
        backups_dir := filter (\<lambda>f. file_name f \<noteq> file_name file) (backups_dir st)\<rparr>"

definition cleanup_old_backups :: "nat \<Rightarrow> state \<Rightarrow> state" where
  "cleanup_old_backups keep_count st =
     (let backup_files = newest_first (filter (\<lambda>f. glob_json (file_name f)) (backups_dir st))
      in if length backup_files > keep_count
         then fold (unlink_backup summary_name) (drop keep_count backup_files) st
         else st)"


subsection \<open>\<^verbatim>\<open>create_backup\<close>\<close>

text \<open>
  Lines 232 to 250: the previous entry is an \<^verbatim>\<open>_unchanged\<close> marker \<open>marker\<close>, and the rows
  to compare with are looked up in the backup it references.  One link is followed; a
  missing file, an unreadable file, a marker at the other end: the result is \<^verbatim>\<open>None\<close>.
\<close>

definition referenced_table_data :: "state \<Rightarrow> (string \<times> json) list \<Rightarrow> string \<Rightarrow> json" where
  "referenced_table_data st marker table =
     (let ref_timestamp = dict_get marker ''_reference_backup''
      in if truthy ref_timestamp then
           (case find_file (backups_dir st)
                   (''supabase_backup_'' @ py_str ref_timestamp @ ''.json'') of
              None \<Rightarrow> JNull
            | Some f \<Rightarrow>
               (case content f of
                  None \<Rightarrow> JNull
                | Some ref_backup \<Rightarrow>
                   (case py_subscript ref_backup ''data'' of
                      Inl e \<Rightarrow> JNull
                    | Inr d \<Rightarrow>
                       (case py_get d table of
                          Inl e \<Rightarrow> JNull
                        | Inr previous_data \<Rightarrow>
                            if has_flag previous_data ''_unchanged'' then JNull
                            else previous_data))))
         else JNull)"

text \<open>Lines 227 to 250: \<^verbatim>\<open>previous_backup['data'].get(table)\<close> and what is made of it.\<close>

definition previous_table_data :: "state \<Rightarrow> json \<Rightarrow> string \<Rightarrow> py_error + json" where
  "previous_table_data st previous_backup table =
     (case py_subscript previous_backup ''data'' of
        Inl e \<Rightarrow> Inl e
      | Inr d \<Rightarrow>
         (case py_get d table of
            Inl e \<Rightarrow> Inl e
          | Inr previous_data \<Rightarrow>
             (case previous_data of
                JObj marker \<Rightarrow>
                  if truthy (dict_get marker ''_backup_failed'') then Inr JNull
                  else if truthy (dict_get marker ''_unchanged'')
                    then Inr (referenced_table_data st marker table)
                  else Inr previous_data
              | _ \<Rightarrow> Inr previous_data)))"

text \<open>What the loop over the tables accumulates.\<close>

record backup_progress =
  data_entries :: "(string \<times> json) list"
  total_rows :: nat
  successful_tables :: nat
  failed_tables :: "string list"
  unchanged_tables :: "string list"
  changed_tables :: "string list"

definition failed_entry :: "py_error \<Rightarrow> json" where
  "failed_entry e = JObj [(''_error'', JStr (error_text e)), (''_backup_failed'', JBool True)]"

definition unchanged_entry :: "json \<Rightarrow> comparison \<Rightarrow> json" where
  "unchanged_entry reference c =
     JObj [(''_unchanged'', JBool True), (''_reference_backup'', reference),
           (''_hash'', (case hash c of None \<Rightarrow> JNull | Some h \<Rightarrow> JStr h))]"

text \<open>
  One iteration of the loop, lines 218 to 288.  \<open>reference\<close> is
  \<^verbatim>\<open>previous_backup['metadata']['timestamp']\<close>.  The \<^verbatim>\<open>try\<close> encloses the fetch, the lookup
  of the previous rows and the comparison; \<open>fetch_table_data\<close> has no error result, so
  the \<^verbatim>\<open>except\<close> branch is reached from the other two only.
\<close>

definition backup_table ::
  "remote \<Rightarrow> state \<Rightarrow> json \<Rightarrow> json \<Rightarrow> bool \<Rightarrow> string \<Rightarrow> backup_progress \<Rightarrow> backup_progress" where
  "backup_table r st previous_backup reference force_full table p =
     (let current_data = fetch_table_data r (requests st) table;
          row_count = length current_data;
          previous_data =
            (if truthy previous_backup \<and> \<not> force_full
             then previous_table_data st previous_backup table else Inr JNull)
      in case (case previous_data of
                 Inl e \<Rightarrow> Inl e
               | Inr pd \<Rightarrow> compare_table_data current_data pd) of
           Inl e \<Rightarrow>
             p\<lparr>data_entries := dict_set (data_entries p) table (failed_entry e),
               failed_tables := failed_tables p @ [table]\<rparr>
         | Inr c \<Rightarrow>
             if \<not> changed c \<and> \<not> force_full then
               p\<lparr>data_entries := dict_set (data_entries p) table (unchanged_entry reference c),
                 unchanged_tables := unchanged_tables p @ [table]\<rparr>
             else if row_count > 0 then
               p\<lparr>data_entries := dict_set (data_entries p) table (JArr current_data),
                 successful_tables := successful_tables p + 1,
                 total_rows := total_rows p + row_count,
                 changed_tables := changed_tables p @ [table]\<rparr>
             else
               p\<lparr>data_entries := dict_set (data_entries p) table (JArr []),
                 successful_tables := successful_tables p + 1\<rparr>)"

definition backup_tables ::
  "remote \<Rightarrow> state \<Rightarrow> json \<Rightarrow> json \<Rightarrow> bool \<Rightarrow> string list \<Rightarrow> backup_progress" where
  "backup_tables r st previous_backup reference force_full tables =
     fold (backup_table r st previous_backup reference force_full) tables
       \<lparr>data_entries = [], total_rows = 0, successful_tables = 0, failed_tables = [],
        unchanged_tables = [], changed_tables = []\<rparr>"

definition names_json :: "string list \<Rightarrow> json" where
  "names_json names = JArr (map JStr names)"

definition backup_document :: "env \<Rightarrow> json \<Rightarrow> json \<Rightarrow> backup_progress \<Rightarrow> json" where
  "backup_document e previous_backup reference p =
     JObj [(''metadata'', JObj
             [(''backup_date'', JStr (now_iso e)),
              (''timestamp'', JStr (now e)),
              (''backup_type'', JStr (if truthy previous_backup then ''incremental'' else ''full'')),
              (''previous_backup'', (if truthy previous_backup then reference else JNull)),
              (''total_tables'', JInt (int (length (all_tables e)))),
              (''tables'', names_json (all_tables e)),
              (''total_rows'', JInt (int (total_rows p))),
              (''successful_tables'', JInt (int (successful_tables p))),
              (''failed_tables'', names_json (failed_tables p)),
              (''failed_count'', JInt (int (length (failed_tables p)))),
              (''unchanged_tables'', names_json (unchanged_tables p)),
              (''changed_tables'', names_json (changed_tables p)),
              (''unchanged_count'', JInt (int (length (unchanged_tables p)))),
              (''changed_count'', JInt (int (length (changed_tables p))))]),
           (''data'', JObj (data_entries p))]"

text \<open>
  \<^verbatim>\<open>previous_backup['metadata'].get('timestamp', 'unknown')\<close> (line 194, in a log message)
  and \<^verbatim>\<open>previous_backup['metadata']['timestamp']\<close> (line 205): both are outside the loop,
  and an exception there ends the run.
\<close>

definition previous_timestamp :: "json \<Rightarrow> py_error + json" where
  "previous_timestamp previous_backup =
     (case py_subscript previous_backup ''metadata'' of
        Inl e \<Rightarrow> Inl e
      | Inr m \<Rightarrow> (case py_get m ''timestamp'' of
                   Inl e \<Rightarrow> Inl e
                 | Inr t \<Rightarrow> py_subscript m ''timestamp''))"

text \<open>
  The result is the boolean the function returns and the state it leaves.  A run that
  ends in the outer \<^verbatim>\<open>except\<close> has written nothing.
\<close>

definition create_backup :: "remote \<Rightarrow> env \<Rightarrow> bool \<Rightarrow> state \<Rightarrow> bool \<times> state" where
  "create_backup r e force_full st =
     (if \<not> env_file e then (False, st)
      else if \<not> credentials e then (False, st)
      else
        let previous_backup = (if force_full then JNull else get_latest_backup st)
        in case (if truthy previous_backup then previous_timestamp previous_backup
                 else Inr JNull) of
             Inl x \<Rightarrow> (False, st)
           | Inr reference \<Rightarrow>
               let p = backup_tables r st previous_backup reference force_full (all_tables e);
                   doc = backup_document e previous_backup reference p
               in if \<not> disk_ok e then (False, st)
                  else
                    (True,
                     cleanup_old_backups default_keep_count
                       (st\<lparr>backups_dir :=
                             write_file (''supabase_backup_'' @ now e @ ''.json'') (clock e) doc
                               (backups_dir st),
                           summaries_dir :=
                             List.insert (''backup_summary_'' @ now e @ ''.json'')
                               (summaries_dir st)\<rparr>)))"

section \<open>\<^verbatim>\<open>supabase_backup.py\<close>: pruning\<close>

text \<open>
  The same function in the all-in-one script: the pattern also matches compressed
  backups, and \<^verbatim>\<open>.gz\<close> is taken out of the name of the summary.
\<close>

definition summary_name_aio :: "string \<Rightarrow> string" where
  "summary_name_aio name =
     replace ''.gz'' '''' (replace ''supabase_backup_'' ''backup_summary_'' name)"

definition cleanup_old_backups_aio :: "nat \<Rightarrow> state \<Rightarrow> state" where
  "cleanup_old_backups_aio keep_count st =
     (let backup_files = newest_first (filter (\<lambda>f. glob_json_any (file_name f)) (backups_dir st))
      in if length backup_files > keep_count
         then fold (unlink_backup summary_name_aio) (drop keep_count backup_files) st
         else st)"


section \<open>\<^verbatim>\<open>supabase_backup.py\<close>: the restore\<close>

subsection \<open>\<^verbatim>\<open>validate_backup_data\<close> and \<^verbatim>\<open>get_table_row_counts\<close>\<close>

definition quoted :: "string \<Rightarrow> string" where
  "quoted s = [CHR 0x27] @ s @ [CHR 0x27]"

definition critical_tables :: "string list" where
  "critical_tables = [''users'', ''packages'', ''bookings'']"

definition critical_warning :: "(string \<times> json) list \<Rightarrow> string \<Rightarrow> string list" where
  "critical_warning entries table =
     (if table \<notin> set (map fst entries)
      then [''Critical table '' @ quoted table @ '' not found in backup''] else [])"

definition table_warning :: "string \<times> json \<Rightarrow> string list" where
  "table_warning = (\<lambda>(table, data).
     if has_flag data ''_backup_failed'' then [''Table '' @ quoted table @ '' had backup errors'']
     else (case data of
             JArr (JObj row # rest) \<Rightarrow>
               if ''id'' \<notin> set (map fst row) \<and> table \<noteq> ''room_allotments''
               then [''Table '' @ quoted table @ '' rows missing '' @ quoted ''id'' @ '' field'']
               else []
           | _ \<Rightarrow> []))"

text \<open>
  The result is \<^verbatim>\<open>(is_valid, errors, warnings)\<close>.  A \<^verbatim>\<open>data\<close> section that is truthy and not
  a dict raises: a number at \<^verbatim>\<open>table not in backup_data['data']\<close>, a list or a string at
  \<^verbatim>\<open>.items()\<close>.  The function is the same in \<^verbatim>\<open>backup_supabase_safe.py\<close>.
\<close>

definition validate_backup_data :: "json \<Rightarrow> py_error + (bool \<times> string list \<times> string list)" where
  "validate_backup_data backup_data =
     (case py_get backup_data ''metadata'' of
        Inl e \<Rightarrow> Inl e
      | Inr m \<Rightarrow>
          if \<not> truthy m then Inr (False, [''Missing metadata in backup''], [])
          else
            (case py_get backup_data ''data'' of
               Inl e \<Rightarrow> Inl e
             | Inr d \<Rightarrow>
                 if \<not> truthy d then Inr (False, [''Missing data in backup''], [])
                 else
                   (case d of
                      JObj entries \<Rightarrow>
                        Inr (True, [],
                             concat (map (critical_warning entries) critical_tables)
                               @ concat (map table_warning entries))
                    | JArr xs \<Rightarrow> Inl AttributeError
                    | JStr s \<Rightarrow> Inl AttributeError
                    | _ \<Rightarrow> Inl TypeError)))"

definition get_table_row_counts ::
  "remote \<Rightarrow> request list \<Rightarrow> string list \<Rightarrow> (string \<times> nat) list" where
  "get_table_row_counts r h tables =
     fold (\<lambda>table counts.
             dict_set counts table (case count_result r h table of Inr n \<Rightarrow> n | Inl e \<Rightarrow> 0))
       tables []"

subsection \<open>\<^verbatim>\<open>create_safety_backup\<close>\<close>

definition safety_document :: "remote \<Rightarrow> env \<Rightarrow> state \<Rightarrow> json" where
  "safety_document r e st =
     (let tables = all_tables e;
          fetched = (\<lambda>table. fetch_table_data r (requests st) table)
      in JObj [(''metadata'', JObj
                 [(''backup_date'', JStr (now_iso e)),
                  (''timestamp'', JStr (now e)),
                  (''backup_type'', JStr ''safety''),
                  (''purpose'', JStr ''pre_restore_snapshot''),
                  (''total_tables'', JInt (int (length tables))),
                  (''tables'', names_json tables),
                  (''total_rows'', JInt (int (sum_list (map (\<lambda>t. length (fetched t)) tables)))),
                  (''successful_tables'', JInt (int (length tables))),
                  (''failed_tables'', JArr [])]),
               (''data'', JObj (fold (\<lambda>table d. dict_set d table (JArr (fetched table))) tables []))])"

text \<open>
  The file name on success, \<open>None\<close> on failure.  As in the backup run, a fetch error never
  reaches the \<^verbatim>\<open>except\<close> of the loop, so no table is marked failed.
\<close>

definition create_safety_backup_aio :: "remote \<Rightarrow> env \<Rightarrow> state \<Rightarrow> string option \<times> state" where
  "create_safety_backup_aio r e st =
     (if \<not> env_file e then (None, st)
      else if \<not> credentials e then (None, st)
      else if \<not> disk_ok e then (None, st)
      else
        let name = ''safety_backup_'' @ now e @ ''.json.gz''
        in (Some name,
            st\<lparr>safety_dir := write_file name (clock e) (safety_document r e st) (safety_dir st)\<rparr>))"

subsection \<open>\<^verbatim>\<open>restore_table_batch\<close>\<close>

record batch_result =
  inserted :: nat
  updated :: nat
  errors :: nat
  error_details :: "string list"

definition excluded_columns :: "string \<Rightarrow> string list" where
  "excluded_columns table =
     (if table = ''booking_hajj'' then [''booking_number'']
      else if table = ''room_allotments'' then [''id'']
      else [])"

fun filter_row :: "string list \<Rightarrow> json \<Rightarrow> json" where
  "filter_row cols (JObj kvs) = JObj (filter (\<lambda>(k, v). k \<notin> set cols) kvs)"
| "filter_row cols row = row"

definition is_duplicate_error :: "string \<Rightarrow> bool" where
  "is_duplicate_error msg = (str_in ''duplicate'' (lower msg) \<or> str_in ''23505'' msg)"

definition is_generated_error :: "string \<Rightarrow> bool" where
  "is_generated_error msg = (str_in ''generated'' (lower msg) \<or> str_in ''428C9'' msg)"

text \<open>A write request is sent: the store answers, and the request joins the history.\<close>

definition send :: "remote \<Rightarrow> request \<Rightarrow> request list \<Rightarrow> string option \<times> request list" where
  "send r rq h = (write_error r h rq, h @ [rq])"

definition count_error :: "string option \<Rightarrow> batch_result \<Rightarrow> batch_result" where
  "count_error detail res =
     res\<lparr>errors := errors res + 1,
         error_details := error_details res @ (case detail of None \<Rightarrow> [] | Some d \<Rightarrow> [d])\<rparr>"

text \<open>
  The body of \<^verbatim>\<open>for row in filtered_batch\<close>, lines 783 to 806.  \<open>row\<close> is a row of the
  filtered batch.  The bare \<^verbatim>\<open>except\<close> around the update also catches the
  \<^verbatim>\<open>AttributeError\<close> of \<^verbatim>\<open>row.get\<close> on a row that is not a dict.
\<close>

definition restore_row ::
  "remote \<Rightarrow> string \<Rightarrow> string list \<Rightarrow> json \<Rightarrow> request list \<times> batch_result
     \<Rightarrow> request list \<times> batch_result" where
  "restore_row r table cols row = (\<lambda>(h, res).
     case send r (Upsert table row) h of
       (None, h1) \<Rightarrow> (h1, res\<lparr>inserted := inserted res + 1\<rparr>)
     | (Some msg, h1) \<Rightarrow>
         if is_duplicate_error msg then
           (case py_get row ''id'' of
              Inl e \<Rightarrow> (h1, count_error (Some (take 200 msg)) res)
            | Inr row_id \<Rightarrow>
                if truthy row_id then
                  (case send r (Update_eq_id table (filter_row cols row) row_id) h1 of
                     (None, h2) \<Rightarrow> (h2, res\<lparr>updated := updated res + 1\<rparr>)
                   | (Some msg2, h2) \<Rightarrow> (h2, count_error (Some (take 200 msg)) res))
                else (h1, count_error (Some (take 200 msg)) res))
         else if is_generated_error msg then (h1, count_error None res)
         else (h1, count_error (Some (take 200 msg)) res))"

definition no_result :: batch_result where
  "no_result = \<lparr>inserted = 0, updated = 0, errors = 0, error_details = []\<rparr>"

definition restore_table_batch ::
  "remote \<Rightarrow> string \<Rightarrow> json list \<Rightarrow> string list \<Rightarrow> request list
     \<Rightarrow> request list \<times> batch_result" where
  "restore_table_batch r table batch cols h =
     (let filtered_batch = map (filter_row cols) batch
      in case send r (Upsert table (JArr filtered_batch)) h of
           (None, h1) \<Rightarrow> (h1, no_result\<lparr>inserted := length filtered_batch\<rparr>)
         | (Some msg, h1) \<Rightarrow>
             (case fold (restore_row r table cols) filtered_batch (h1, no_result) of
                (h2, res) \<Rightarrow> (h2, res\<lparr>error_details := take 5 (error_details res)\<rparr>)))"


subsection \<open>\<^verbatim>\<open>restore_backup\<close>\<close>

text \<open>
  The function is \<open>restore_backup_aio\<close> here; \<open>restore_backup\<close> is the one of
  \<^verbatim>\<open>backup_supabase.py\<close>.

  \<^verbatim>\<open>tables = backup_data['metadata']['tables']\<close> is iterated twice.  A list of strings is
  the normal case; a dict yields its keys and a string its characters.  Any other element
  or value ends the restore with a \<^verbatim>\<open>TypeError\<close> before the first write (at the latest at
  \<^verbatim>\<open>len(data)\<close> for the entry \<^verbatim>\<open>None\<close> that \<^verbatim>\<open>.get\<close> returns for it).
\<close>

fun table_name :: "json \<Rightarrow> py_error + string" where
  "table_name (JStr s) = Inr s"
| "table_name _ = Inl TypeError"

fun table_names_of :: "json list \<Rightarrow> py_error + string list" where
  "table_names_of [] = Inr []"
| "table_names_of (x # xs) =
     (case table_name x of
        Inl e \<Rightarrow> Inl e
      | Inr s \<Rightarrow> (case table_names_of xs of Inl e \<Rightarrow> Inl e | Inr ss \<Rightarrow> Inr (s # ss)))"

definition table_names :: "json \<Rightarrow> py_error + string list" where
  "table_names tables =
     (case py_iter tables of Inl e \<Rightarrow> Inl e | Inr xs \<Rightarrow> table_names_of xs)"

text \<open>
  Lines 904 to 924.  The backup named by \<^verbatim>\<open>metadata['previous_backup']\<close> is loaded, plain
  or compressed, and every entry that is an \<^verbatim>\<open>_unchanged\<close> marker is replaced by the entry
  of the same table there (\<^verbatim>\<open>[]\<close> when it has none).  Nothing is followed further.  An
  exception (unreadable file, no \<^verbatim>\<open>data\<close> dict in it) is logged and leaves the entries as
  they are.
\<close>

definition merge_unchanged ::
  "(string \<times> json) list \<Rightarrow> (string \<times> json) list \<Rightarrow> (string \<times> json) list" where
  "merge_unchanged previous_entries entries =
     map (\<lambda>(table, data).
            (table,
             if has_flag data ''_unchanged''
             then (case map_of previous_entries table of None \<Rightarrow> JArr [] | Some v \<Rightarrow> v)
             else data))
       entries"

definition find_backup_aio :: "state \<Rightarrow> string \<Rightarrow> backup_file option" where
  "find_backup_aio st name =
     (case find_file (backups_dir st) name of
        Some f \<Rightarrow> Some f
      | None \<Rightarrow> find_file (backups_dir st) (name @ ''.gz''))"

definition resolve_incremental ::
  "state \<Rightarrow> (string \<times> json) list \<Rightarrow> (string \<times> json) list \<Rightarrow> (string \<times> json) list" where
  "resolve_incremental st metadata entries =
     (if dict_get metadata ''backup_type'' = JStr ''incremental'' then
        (let previous_timestamp = dict_get metadata ''previous_backup''
         in if truthy previous_timestamp then
              (case find_backup_aio st
                      (''supabase_backup_'' @ py_str previous_timestamp @ ''.json'') of
                 None \<Rightarrow> entries
               | Some f \<Rightarrow>
                   (case content f of
                      None \<Rightarrow> entries
                    | Some prev_backup \<Rightarrow>
                        (case py_subscript prev_backup ''data'' of
                           Inr (JObj previous_entries) \<Rightarrow> merge_unchanged previous_entries entries
                         | _ \<Rightarrow> entries)))
            else entries)
      else entries)"

text \<open>
  Lines 958 to 979, for one table: what the loop that prepares the restore tasks does
  with the entry \<open>data\<close>.  \<^verbatim>\<open>len(data)\<close> is evaluated for every entry that is not a
  non-empty list, and raises for \<^verbatim>\<open>None\<close>, a number or a boolean.
\<close>

datatype table_plan = Skip_backup_failed | Skip | Batches "json list list"

definition default_batch_size :: nat where
  "default_batch_size = 100"

definition plan_table :: "json \<Rightarrow> py_error + table_plan" where
  "plan_table data =
     (if has_flag data ''_backup_failed'' then Inr Skip_backup_failed
      else if has_flag data ''_unchanged'' then Inr Skip
      else (case data of
              JArr rows \<Rightarrow> if rows = [] then Inr Skip
                           else Inr (Batches (chunks default_batch_size rows))
            | JObj kvs \<Rightarrow> Inr Skip
            | JStr s \<Rightarrow> Inr Skip
            | _ \<Rightarrow> Inl TypeError))"

type_synonym restore_task = "string \<times> json list \<times> string list"

fun prepare_tasks ::
  "(string \<times> json) list \<Rightarrow> string list
     \<Rightarrow> py_error + (restore_task list \<times> (string \<times> string) list)" where
  "prepare_tasks entries [] = Inr ([], [])"
| "prepare_tasks entries (table # tables) =
     (case plan_table (dict_get entries table) of
        Inl e \<Rightarrow> Inl e
      | Inr plan \<Rightarrow>
          (case prepare_tasks entries tables of
             Inl e \<Rightarrow> Inl e
           | Inr (tasks, failed) \<Rightarrow>
               (case plan of
                  Skip_backup_failed \<Rightarrow> Inr (tasks, (table, ''backup_failed'') # failed)
                | Skip \<Rightarrow> Inr (tasks, failed)
                | Batches bs \<Rightarrow>
                    Inr (map (\<lambda>b. (table, b, excluded_columns table)) bs @ tasks, failed))))"

text \<open>
  The sequential branch (\<^verbatim>\<open>max_workers=1\<close>), lines 1027 to 1042: the tasks run in order, and
  the result of each batch is added to the result of its table.  (With more than one
  worker, and the default is 3, the same tasks run \<open>restore_table_batch\<close> in a thread pool
  and their requests interleave; that mode is not modelled.)
\<close>

definition add_result :: "batch_result \<Rightarrow> batch_result \<Rightarrow> batch_result" where
  "add_result res acc =
     \<lparr>inserted = inserted acc + inserted res, updated = updated acc + updated res,
      errors = errors acc + errors res,
      error_details = error_details acc @ error_details res\<rparr>"

definition run_task ::
  "remote \<Rightarrow> restore_task \<Rightarrow> request list \<times> (string \<times> batch_result) list
     \<Rightarrow> request list \<times> (string \<times> batch_result) list" where
  "run_task r = (\<lambda>(table, batch, cols) (h, table_results).
     case restore_table_batch r table batch cols h of
       (h', res) \<Rightarrow>
         (h', dict_set table_results table
                (add_result res
                   (case map_of table_results table of None \<Rightarrow> no_result | Some t \<Rightarrow> t))))"

text \<open>
  The restore log.  \<open>'t\<close> is the type of the table names: strings here, any hashable
  JSON value in \<^verbatim>\<open>backup_supabase_safe.py\<close>.
\<close>

record 't restore_log =
  started_at :: string
  log_backup_file :: string
  safety_backup_file :: "string option"
  before_counts :: "('t \<times> nat) list"
  tables_restored :: "(string \<times> batch_result) list"
  tables_failed :: "('t \<times> string) list"
  total_inserted :: nat
  total_updated :: nat
  total_errors :: nat
  after_counts :: "('t \<times> nat) list"
  completed_at :: string

text \<open>
  The third component of the result: \<^verbatim>\<open>{}\<close>, \<^verbatim>\<open>{'errors': ..., 'warnings': ...}\<close>,
  \<^verbatim>\<open>{'error': str(e)}\<close> or the restore log.
\<close>

datatype 't log_result =
    No_log
  | Validation_log "string list" "string list"
  | Error_log py_error
  | Full_log "'t restore_log"

type_synonym 't restore_result = "bool \<times> string option \<times> 't log_result"

definition make_restore_log ::
  "env \<Rightarrow> string \<Rightarrow> string option \<Rightarrow> ('t \<times> nat) list \<Rightarrow> (string \<times> batch_result) list
     \<Rightarrow> ('t \<times> string) list \<Rightarrow> ('t \<times> nat) list \<Rightarrow> 't restore_log" where
  "make_restore_log e backup_file safety counts_before results failed counts_after =
     \<lparr>started_at = now_iso e, log_backup_file = backup_file, safety_backup_file = safety,
      before_counts = counts_before, tables_restored = results, tables_failed = failed,
      total_inserted = sum_list (map (\<lambda>(t, res). inserted res) results),
      total_updated = sum_list (map (\<lambda>(t, res). updated res) results),
      total_errors = sum_list (map (\<lambda>(t, res). errors res) results),
      after_counts = counts_after, completed_at = now_iso e\<rparr>"

text \<open>
  From the validated backup to the end, lines 895 to 1091.  \<open>entries\<close> is the \<^verbatim>\<open>data\<close> dict
  and \<open>metadata\<close> the \<^verbatim>\<open>metadata\<close> dict of the backup.
\<close>

definition restore_validated ::
  "remote \<Rightarrow> env \<Rightarrow> string \<Rightarrow> string option \<Rightarrow> (string \<times> json) list \<Rightarrow> (string \<times> json) list
     \<Rightarrow> state \<Rightarrow> string restore_result \<times> state" where
  "restore_validated r e backup_file safety metadata entries st =
     (case (case py_subscript (JObj metadata) ''tables'' of
              Inl x \<Rightarrow> Inl x | Inr tj \<Rightarrow> table_names tj) of
        Inl x \<Rightarrow> ((False, safety, Error_log x), st)
      | Inr tables \<Rightarrow>
          let counts_before = get_table_row_counts r (requests st) tables;
              resolved = resolve_incremental st metadata entries
          in case prepare_tasks resolved tables of
               Inl x \<Rightarrow> ((False, safety, Error_log x), st)
             | Inr (tasks, failed) \<Rightarrow>
                 (case fold (run_task r) tasks (requests st, []) of
                    (h, results) \<Rightarrow>
                      let counts_after = get_table_row_counts r h tables;
                          log = make_restore_log e backup_file safety counts_before results failed counts_after
                      in if \<not> disk_ok e
                         then ((False, safety, Error_log IOError), st\<lparr>requests := h\<rparr>)
                         else ((True, safety, Full_log log),
                               st\<lparr>requests := h,
                                  summaries_dir :=
                                    List.insert (''restore_log_'' @ now e @ ''.json'')
                                      (summaries_dir st)\<rparr>)))"

text \<open>
  From the loaded backup to the validation, lines 878 to 893.  The log message of line
  879 reads \<^verbatim>\<open>backup_data['metadata']['backup_date']\<close> before the validation runs.
\<close>

definition restore_loaded ::
  "remote \<Rightarrow> env \<Rightarrow> string \<Rightarrow> string option \<Rightarrow> json \<Rightarrow> state
     \<Rightarrow> string restore_result \<times> state" where
  "restore_loaded r e backup_file safety backup_data st =
     (case (case py_subscript backup_data ''metadata'' of
              Inl x \<Rightarrow> Inl x
            | Inr m \<Rightarrow> (case py_subscript m ''backup_date'' of
                         Inl x \<Rightarrow> Inl x
                       | Inr d \<Rightarrow> validate_backup_data backup_data)) of
        Inl x \<Rightarrow> ((False, safety, Error_log x), st)
      | Inr (is_valid, errs, warnings) \<Rightarrow>
          if \<not> is_valid then ((False, safety, Validation_log errs warnings), st)
          else
            (case (dict_get_obj backup_data ''metadata'', dict_get_obj backup_data ''data'') of
               (Some metadata, Some entries) \<Rightarrow>
                 restore_validated r e backup_file safety metadata entries st
             | _ \<Rightarrow> ((False, safety, Error_log TypeError), st)))"

definition restore_backup_aio ::
  "remote \<Rightarrow> env \<Rightarrow> string \<Rightarrow> bool \<Rightarrow> state \<Rightarrow> string restore_result \<times> state" where
  "restore_backup_aio r e backup_file skip_safety_backup st =
     (case find_backup_aio st backup_file of
        None \<Rightarrow> ((False, None, No_log), st)
      | Some file \<Rightarrow>
          if \<not> env_file e then ((False, None, No_log), st)
          else
            (case (if skip_safety_backup then (Some None, st)
                   else (case create_safety_backup_aio r e st of
                           (None, st1) \<Rightarrow> (None, st1)
                         | (Some name, st1) \<Rightarrow> (Some (Some name), st1))) of
               (None, st1) \<Rightarrow> ((False, None, No_log), st1)
             | (Some safety, st1) \<Rightarrow>
                 if \<not> credentials e then ((False, safety, No_log), st1)
                 else
                   (case content file of
                      None \<Rightarrow> ((False, safety, Error_log IOError), st1)
                    | Some backup_data \<Rightarrow>
                        restore_loaded r e backup_file safety backup_data st1)))"


section \<open>\<^verbatim>\<open>backup_supabase_safe.py\<close>: the safe restore\<close>

text \<open>
  \<^verbatim>\<open>create_safety_backup\<close> writes an uncompressed file; \<^verbatim>\<open>get_supabase_client\<close> is the one of
  \<^verbatim>\<open>backup_supabase.py\<close> and raises without credentials, inside the \<^verbatim>\<open>try\<close>.
\<close>

definition create_safety_backup :: "remote \<Rightarrow> env \<Rightarrow> state \<Rightarrow> string option \<times> state" where
  "create_safety_backup r e st =
     (if \<not> env_file e then (None, st)
      else if \<not> credentials e then (None, st)
      else if \<not> disk_ok e then (None, st)
      else
        let name = ''safety_backup_'' @ now e @ ''.json''
        in (Some name,
            st\<lparr>safety_dir := write_file name (clock e) (safety_document r e st) (safety_dir st)\<rparr>))"

text \<open>
  The elements of \<^verbatim>\<open>metadata['tables']\<close>.  Each becomes a key of the dict of row counts, so
  a list or a dict among them raises \<^verbatim>\<open>TypeError\<close>.  Any other value passes: for an element
  that is not a string, \<^verbatim>\<open>backup_data['data'].get\<close> returns \<^verbatim>\<open>None\<close>.  (A boolean and the
  number equal to it would be one key in Python; the model keeps them apart.)
\<close>

definition hashable :: "json \<Rightarrow> bool" where
  "hashable x = (case x of JArr xs \<Rightarrow> False | JObj kvs \<Rightarrow> False | _ \<Rightarrow> True)"

definition table_keys :: "json \<Rightarrow> py_error + json list" where
  "table_keys tables =
     (case py_iter tables of
        Inl e \<Rightarrow> Inl e
      | Inr xs \<Rightarrow> if list_all hashable xs then Inr xs else Inl TypeError)"

definition table_entry :: "(string \<times> json) list \<Rightarrow> json \<Rightarrow> json" where
  "table_entry entries table = (case table of JStr s \<Rightarrow> dict_get entries s | _ \<Rightarrow> JNull)"

text \<open>
  \<^verbatim>\<open>get_table_row_counts\<close> over these elements.  What the client asks the store for a table
  name that is not a string is not known; \<open>py_str\<close> of it stands for the name.
\<close>

definition get_table_row_counts_keys ::
  "remote \<Rightarrow> request list \<Rightarrow> json list \<Rightarrow> (json \<times> nat) list" where
  "get_table_row_counts_keys r h tables =
     fold (\<lambda>table counts.
             dict_set counts table
               (case count_result r h (py_str table) of Inr n \<Rightarrow> n | Inl e \<Rightarrow> 0))
       tables []"

text \<open>
  Lines 229 to 240: as in \<^verbatim>\<open>supabase_backup.py\<close>, but only the uncompressed name is tried
  and nothing is caught, so an unreadable file or a previous backup without a \<^verbatim>\<open>data\<close> dict
  ends the restore.  \<^verbatim>\<open>prev_backup['data']\<close> is evaluated only for an \<^verbatim>\<open>_unchanged\<close> entry.
\<close>

definition resolve_incremental_safe ::
  "state \<Rightarrow> (string \<times> json) list \<Rightarrow> (string \<times> json) list \<Rightarrow> py_error + (string \<times> json) list" where
  "resolve_incremental_safe st metadata entries =
     (if dict_get metadata ''backup_type'' = JStr ''incremental'' then
        (let previous_timestamp = dict_get metadata ''previous_backup''
         in if truthy previous_timestamp then
              (case find_file (backups_dir st)
                      (''supabase_backup_'' @ py_str previous_timestamp @ ''.json'') of
                 None \<Rightarrow> Inr entries
               | Some f \<Rightarrow>
                   (case content f of
                      None \<Rightarrow> Inl IOError
                    | Some prev_backup \<Rightarrow>
                        if list_ex (\<lambda>(table, data). has_flag data ''_unchanged'') entries then
                          (case py_subscript prev_backup ''data'' of
                             Inl e \<Rightarrow> Inl e
                           | Inr (JObj previous_entries) \<Rightarrow>
                               Inr (merge_unchanged previous_entries entries)
                           | Inr d \<Rightarrow> Inl AttributeError)
                        else Inr entries))
            else Inr entries)
      else Inr entries)"

text \<open>Lines 301 to 342: one batch; the counters run over all batches of the table.\<close>

definition restore_batch_safe ::
  "remote \<Rightarrow> string \<Rightarrow> string list \<Rightarrow> json list \<Rightarrow> request list \<times> batch_result
     \<Rightarrow> request list \<times> batch_result" where
  "restore_batch_safe r table cols batch = (\<lambda>(h, res).
     let filtered_batch = map (filter_row cols) batch
     in case send r (Upsert table (JArr filtered_batch)) h of
          (None, h1) \<Rightarrow> (h1, res\<lparr>inserted := inserted res + length filtered_batch\<rparr>)
        | (Some msg, h1) \<Rightarrow> fold (restore_row r table cols) filtered_batch (h1, res))"

text \<open>
  Lines 268 to 372: one table.  The state of the loop is the request history, the
  \<^verbatim>\<open>tables_restored\<close> dict and the \<^verbatim>\<open>tables_failed\<close> list.  Only a string can be the name of a
  table with a list entry.
\<close>

definition restore_table_safe ::
  "remote \<Rightarrow> (string \<times> json) list \<Rightarrow> json
     \<Rightarrow> request list \<times> (string \<times> batch_result) list \<times> (json \<times> string) list
     \<Rightarrow> request list \<times> (string \<times> batch_result) list \<times> (json \<times> string) list" where
  "restore_table_safe r entries table = (\<lambda>(h, restored, failed).
     let data = table_entry entries table
     in if has_flag data ''_backup_failed'' then (h, restored, failed @ [(table, ''backup_failed'')])
        else if has_flag data ''_unchanged'' then (h, restored, failed)
        else (case data of
                JArr rows \<Rightarrow>
                  if rows = [] then (h, restored, failed)
                  else
                    (case fold (restore_batch_safe r (py_str table) (excluded_columns (py_str table)))
                            (chunks 100 rows) (h, no_result) of
                       (h', res) \<Rightarrow>
                         (h',
                          dict_set restored (py_str table)
                            (res\<lparr>error_details := take 5 (error_details res)\<rparr>),
                          failed))
              | _ \<Rightarrow> (h, restored, failed @ [(table, ''invalid_format'')])))"

definition restore_validated_safe ::
  "remote \<Rightarrow> env \<Rightarrow> string \<Rightarrow> string option \<Rightarrow> json \<Rightarrow> (string \<times> json) list \<Rightarrow> state
     \<Rightarrow> json restore_result \<times> state" where
  "restore_validated_safe r e backup_file safety backup_data entries st =
     (case (case py_subscript backup_data ''metadata'' of
              Inl x \<Rightarrow> Inl x
            | Inr m \<Rightarrow>
                (case py_subscript m ''tables'' of
                   Inl x \<Rightarrow> Inl x
                 | Inr tj \<Rightarrow>
                     (case table_keys tj of
                        Inl x \<Rightarrow> Inl x
                      | Inr tables \<Rightarrow>
                          (case resolve_incremental_safe st
                                  (case m of JObj metadata \<Rightarrow> metadata | _ \<Rightarrow> []) entries of
                             Inl x \<Rightarrow> Inl x
                           | Inr resolved \<Rightarrow> Inr (tables, resolved))))) of
        Inl x \<Rightarrow> ((False, safety, Error_log x), st)
      | Inr (tables, resolved) \<Rightarrow>
          let counts_before = get_table_row_counts_keys r (requests st) tables
          in case fold (restore_table_safe r resolved) tables (requests st, [], []) of
               (h, restored, failed) \<Rightarrow>
                 let counts_after = get_table_row_counts_keys r h tables;
                     log = make_restore_log e backup_file safety counts_before restored failed counts_after
                 in if \<not> disk_ok e
                    then ((False, safety, Error_log IOError), st\<lparr>requests := h\<rparr>)
                    else ((True, safety, Full_log log),
                          st\<lparr>requests := h,
                             summaries_dir :=
                               List.insert (''restore_log_'' @ now e @ ''.json'')
                                 (summaries_dir st)\<rparr>))"

definition restore_backup_safe ::
  "remote \<Rightarrow> env \<Rightarrow> string \<Rightarrow> bool \<Rightarrow> state \<Rightarrow> json restore_result \<times> state" where
  "restore_backup_safe r e backup_file skip_safety_backup st =
     (case find_file (backups_dir st) backup_file of
        None \<Rightarrow> ((False, None, No_log), st)
      | Some file \<Rightarrow>
          if \<not> env_file e then ((False, None, No_log), st)
          else
            (case (if skip_safety_backup then (Some None, st)
                   else (case create_safety_backup r e st of
                           (None, st1) \<Rightarrow> (None, st1)
                         | (Some name, st1) \<Rightarrow> (Some (Some name), st1))) of
               (None, st1) \<Rightarrow> ((False, None, No_log), st1)
             | (Some safety, st1) \<Rightarrow>
                 if \<not> credentials e then ((False, safety, Error_log ValueError), st1)
                 else
                   (case content file of
                      None \<Rightarrow> ((False, safety, Error_log IOError), st1)
                    | Some backup_data \<Rightarrow>
                        (case validate_backup_data backup_data of
                           Inl x \<Rightarrow> ((False, safety, Error_log x), st1)
                         | Inr (is_valid, errs, warnings) \<Rightarrow>
                             if \<not> is_valid
                             then ((False, safety, Validation_log errs warnings), st1)
                             else
                               (case dict_get_obj backup_data ''data'' of
                                  None \<Rightarrow> ((False, safety, Error_log TypeError), st1)
                                | Some entries \<Rightarrow>
                                    restore_validated_safe r e backup_file safety backup_data
                                      entries st1)))))"

section \<open>\<^verbatim>\<open>backup_supabase.py\<close>: the restore\<close>



section \<open>What a restore addresses\<close>

text \<open>
  The vocabulary of the frame property of the restore.  The identifier of a row is the
  value under \<^verbatim>\<open>id\<close>, the column the scripts update by; a row without the key, with
  \<^verbatim>\<open>null\<close> under it, or that is not a dict has none.  Identifiers are compared as JSON
  values.
\<close>

fun row_id :: "json \<Rightarrow> json option" where
  "row_id (JObj kvs) =
     (case map_of kvs ''id'' of None \<Rightarrow> None | Some v \<Rightarrow> if v = JNull then None else Some v)"
| "row_id x = None"

text \<open>The identifiers a payload names: those of its rows when it is a list, its own otherwise.\<close>

fun ids_of :: "json \<Rightarrow> json list" where
  "ids_of (JArr xs) = List.map_filter row_id xs"
| "ids_of x = List.map_filter row_id [x]"

text \<open>
  Whether the request \<open>rq\<close> names the row \<open>row\<close> of table \<open>t\<close>: an upsert names the rows with the
  identifiers of its payload, \<^verbatim>\<open>update(...).eq('id', v)\<close> the rows with identifier \<open>v\<close>,
  \<^verbatim>\<open>delete().eq(c, v)\<close> the rows with \<open>v\<close> in column \<open>c\<close>, and an insert no row that exists.
\<close>

fun targets :: "request \<Rightarrow> string \<Rightarrow> json \<Rightarrow> bool" where
  "targets (Upsert t' x) t row = (t' = t \<and> (\<exists>v \<in> set (ids_of x). row_id row = Some v))"
| "targets (Update_eq_id t' x v) t row = (t' = t \<and> row_id row = Some v)"
| "targets (Insert t' x) t row = False"
| "targets (Delete_eq t' c v) t row = (t' = t \<and> py_get row c = Inr v)"







section \<open>Scenarios\<close>

text \<open>
  Concrete environments, stores and directories on which the theorems below are
  instantiated and the scripts are run.
\<close>

definition empty_state :: state where
  "empty_state = \<lparr>backups_dir = [], safety_dir = [], summaries_dir = [], requests = []\<rparr>"

definition two_tables_env :: env where
  "two_tables_env =
     \<lparr>env_file = True, credentials = True, all_tables = [''users'', ''orders''],
      now = ''20240101_000500'', now_iso = ''2024-01-01T00:05:00'', clock = 5, disk_ok = True\<rparr>"

text \<open>A store that accepts every write and serves no rows.\<close>

definition quiet_remote :: remote where
  "quiet_remote =
     \<lparr>table_rows = (\<lambda>h t. []), select_error = (\<lambda>h t start. None),
      count_result = (\<lambda>h t. Inr 0), write_error = (\<lambda>h rq. None)\<rparr>"

text \<open>A store with one user and one order, where every request for \<^verbatim>\<open>orders\<close> raises.\<close>

definition orders_unreachable :: remote where
  "orders_unreachable =
     \<lparr>table_rows = (\<lambda>h t. if t = ''users'' then [JObj [(''id'', JInt 1)]]
                          else if t = ''orders'' then [JObj [(''id'', JInt 7)]] else []),
      select_error = (\<lambda>h t start. if t = ''orders'' then Some ''connection reset'' else None),
      count_result = (\<lambda>h t. Inr 0),
      write_error = (\<lambda>h rq. None)\<rparr>"

definition row_a :: json where
  "row_a = JObj [(''id'', JInt 1), (''name'', JStr ''a'')]"

definition row_b :: json where
  "row_b = JObj [(''id'', JInt 2), (''name'', JStr ''b'')]"

text \<open>A store whose table \<^verbatim>\<open>users\<close> holds the rows a and b, and the environment of a run.\<close>

definition users_remote :: remote where
  "users_remote =
     \<lparr>table_rows = (\<lambda>h t. if t = ''users'' then [row_a, row_b] else []),
      select_error = (\<lambda>h t start. None),
      count_result = (\<lambda>h t. Inr 0), write_error = (\<lambda>h rq. None)\<rparr>"

definition users_env :: "string \<Rightarrow> string \<Rightarrow> nat \<Rightarrow> env" where
  "users_env timestamp date t =
     \<lparr>env_file = True, credentials = True, all_tables = [''users''],
      now = timestamp, now_iso = date, clock = t, disk_ok = True\<rparr>"

text \<open>
  The backup file of a run over the one table \<^verbatim>\<open>users\<close>, as \<open>create_backup\<close> writes it:
  \<open>previous\<close> is the timestamp of the backup it was compared with (or \<^verbatim>\<open>None\<close>), \<open>users\<close>
  the entry of the table.
\<close>

definition users_backup :: "string \<Rightarrow> string \<Rightarrow> nat \<Rightarrow> json \<Rightarrow> json \<Rightarrow> backup_file" where
  "users_backup timestamp date t previous users =
     (let materialized = (case users of JArr rows \<Rightarrow> True | _ \<Rightarrow> False);
          n = (case users of JArr rows \<Rightarrow> int (length rows) | _ \<Rightarrow> 0)
      in \<lparr>file_name = ''supabase_backup_'' @ timestamp @ ''.json'', mtime = t,
          content = Some (JObj
            [(''metadata'', JObj
               [(''backup_date'', JStr date),
                (''timestamp'', JStr timestamp),
                (''backup_type'', JStr (if previous = JNull then ''full'' else ''incremental'')),
                (''previous_backup'', previous),
                (''total_tables'', JInt 1),
                (''tables'', JArr [JStr ''users'']),
                (''total_rows'', JInt n),
                (''successful_tables'', JInt (if materialized then 1 else 0)),
                (''failed_tables'', JArr []),
                (''failed_count'', JInt 0),
                (''unchanged_tables'', JArr (if materialized then [] else [JStr ''users''])),
                (''changed_tables'', JArr (if materialized then [JStr ''users''] else [])),
                (''unchanged_count'', JInt (if materialized then 0 else 1)),
                (''changed_count'', JInt (if materialized then 1 else 0))]),
             (''data'', JObj [(''users'', users)])])\<rparr>)"

definition unchanged_marker :: "string \<Rightarrow> json" where
  "unchanged_marker reference =
     JObj [(''_unchanged'', JBool True), (''_reference_backup'', JStr reference),
           (''_hash'', JStr ''34214fbd689ac2bbc41b93491b7d2790'')]"

text \<open>
  The chain S1 (rows a and b), S2 (unchanged, referencing S1), S3 (unchanged,
  referencing S2): the directories after three backup runs over an unchanged table.
\<close>

definition snapshot1 :: backup_file where
  "snapshot1 =
     users_backup ''20240101_000000'' ''2024-01-01T00:00:00'' 1 JNull (JArr [row_a, row_b])"

definition snapshot2 :: backup_file where
  "snapshot2 =
     users_backup ''20240101_000500'' ''2024-01-01T00:05:00'' 2 (JStr ''20240101_000000'')
       (unchanged_marker ''20240101_000000'')"

definition snapshot3 :: backup_file where
  "snapshot3 =
     users_backup ''20240101_001000'' ''2024-01-01T00:10:00'' 3 (JStr ''20240101_000500'')
       (unchanged_marker ''20240101_000500'')"

definition chain_state :: state where
  "chain_state =
     \<lparr>backups_dir = [snapshot1, snapshot2, snapshot3],
      safety_dir = [],
      summaries_dir =
        [''backup_summary_20240101_001000.json'', ''backup_summary_20240101_000500.json'',
         ''backup_summary_20240101_000000.json''],
      requests = []\<rparr>"

text \<open>The \<^verbatim>\<open>metadata\<close> and the \<^verbatim>\<open>data\<close> dict of a backup file.\<close>

definition metadata_of :: "backup_file \<Rightarrow> (string \<times> json) list" where
  "metadata_of f =
     (case content f of
        Some doc \<Rightarrow> (case dict_get_obj doc ''metadata'' of Some m \<Rightarrow> m | None \<Rightarrow> [])
      | None \<Rightarrow> [])"

definition entries_of :: "backup_file \<Rightarrow> (string \<times> json) list" where
  "entries_of f =
     (case content f of
        Some doc \<Rightarrow> (case dict_get_obj doc ''data'' of Some d \<Rightarrow> d | None \<Rightarrow> [])
      | None \<Rightarrow> [])"

text \<open>The cycle S1 (unchanged, referencing S2), S2 (unchanged, referencing S1).\<close>

definition cycle1 :: backup_file where
  "cycle1 =
     users_backup ''20240101_000000'' ''2024-01-01T00:00:00'' 1 (JStr ''20240101_000500'')
       (unchanged_marker ''20240101_000500'')"

definition cycle2 :: backup_file where
  "cycle2 =
     users_backup ''20240101_000500'' ''2024-01-01T00:05:00'' 2 (JStr ''20240101_000000'')
       (unchanged_marker ''20240101_000000'')"

definition cyclic_state :: state where
  "cyclic_state =
     \<lparr>backups_dir = [cycle1, cycle2], safety_dir = [], summaries_dir = [], requests = []\<rparr>"

text \<open>A backup file whose \<^verbatim>\<open>data\<close> section is present and empty.\<close>

definition empty_data_backup :: backup_file where
  "empty_data_backup =
     \<lparr>file_name = ''supabase_backup_20240101_003000.json'', mtime = 7,
      content = Some (JObj
        [(''metadata'', JObj
            [(''backup_date'', JStr ''2024-01-01T00:30:00''),
             (''timestamp'', JStr ''20240101_003000''),
             (''backup_type'', JStr ''full''),
             (''previous_backup'', JNull),
             (''total_tables'', JInt 0),
             (''tables'', JArr [])]),
         (''data'', JObj [])])\<rparr>"


text \<open>
  A backup file without the critical tables \<^verbatim>\<open>packages\<close> and \<^verbatim>\<open>bookings\<close>, whose one user has
  no \<^verbatim>\<open>id\<close>.
\<close>

definition nameless_backup :: backup_file where
  "nameless_backup =
     \<lparr>file_name = ''supabase_backup_20240101_003500.json'', mtime = 7,
      content = Some (JObj
        [(''metadata'', JObj
            [(''backup_date'', JStr ''2024-01-01T00:35:00''),
             (''timestamp'', JStr ''20240101_003500''),
             (''backup_type'', JStr ''full''),
             (''previous_backup'', JNull),
             (''total_tables'', JInt 1),
             (''tables'', JArr [JStr ''users''])]),
         (''data'', JObj [(''users'', JArr [JObj [(''name'', JStr ''c'')]])])])\<rparr>"

text \<open>
  A store that holds the user a, rejects every bulk upsert, and rejects the upsert of every
  single row but b as a duplicate.  Row c has no \<^verbatim>\<open>id\<close>; the \<^verbatim>\<open>id\<close> of row z is \<^verbatim>\<open>0\<close>.
\<close>

definition picky_remote :: remote where
  "picky_remote =
     \<lparr>table_rows = (\<lambda>h t. if t = ''users'' then [row_a] else []),
      select_error = (\<lambda>h t start. None),
      count_result = (\<lambda>h t. Inr 1),
      write_error = (\<lambda>h rq.
        case rq of
          Upsert t (JArr rows) \<Rightarrow> Some ''invalid input syntax''
        | Upsert t row \<Rightarrow>
            if row = row_b then None
            else Some ''duplicate key value violates unique constraint''
        | _ \<Rightarrow> None)\<rparr>"

definition row_c :: json where
  "row_c = JObj [(''name'', JStr ''c'')]"

definition row_z :: json where
  "row_z = JObj [(''id'', JInt 0), (''name'', JStr ''z'')]"

text \<open>A row of \<^verbatim>\<open>room_allotments\<close>, the table whose \<^verbatim>\<open>id\<close> column is excluded from the writes.\<close>

definition room_5 :: json where
  "room_5 = JObj [(''id'', JInt 5), (''room'', JStr ''101'')]"

text \<open>
  A small store that applies the requests it has received to the rows it started with.  An
  upsert replaces the rows it names and adds the others, an update replaces the row with
  the given identifier, and an upsert with a row that has no identifier is rejected as a
  whole and changes nothing.
\<close>

fun payload_rows :: "json \<Rightarrow> json list" where
  "payload_rows (JArr xs) = xs"
| "payload_rows x = [x]"

definition rejected :: "request \<Rightarrow> bool" where
  "rejected rq =
     (case rq of Upsert t x \<Rightarrow> list_ex (\<lambda>y. row_id y = None) (payload_rows x) | _ \<Rightarrow> False)"

definition apply_request :: "request \<Rightarrow> (string \<Rightarrow> json list) \<Rightarrow> string \<Rightarrow> json list" where
  "apply_request rq db t =
     (if rejected rq then db t
      else case rq of
        Upsert t' x \<Rightarrow>
          if t' = t then filter (\<lambda>row. \<not> targets rq t row) (db t) @ payload_rows x else db t
      | Update_eq_id t' x v \<Rightarrow>
          if t' = t then map (\<lambda>row. if row_id row = Some v then x else row) (db t) else db t
      | Insert t' x \<Rightarrow> if t' = t then db t @ payload_rows x else db t
      | Delete_eq t' c v \<Rightarrow>
          if t' = t then filter (\<lambda>row. \<not> targets rq t row) (db t) else db t)"

definition simple_store :: "(string \<Rightarrow> json list) \<Rightarrow> remote" where
  "simple_store initial =
     \<lparr>table_rows = (\<lambda>h t. fold apply_request h initial t),
      select_error = (\<lambda>h t start. None),
      count_result = (\<lambda>h t. Inr (length (fold apply_request h initial t))),
      write_error = (\<lambda>h rq.
        if rejected rq then Some ''null value in column id violates not-null constraint''
        else None)\<rparr>"

text \<open>
  The store before the restore: an older version of user a, and a user d and an order that
  the backup does not have.  The backup: the users a, b and c, no order, and a table
  \<^verbatim>\<open>items\<close> whose backup failed.
\<close>

definition row_a_old :: json where
  "row_a_old = JObj [(''id'', JInt 1), (''name'', JStr ''old'')]"

definition row_d :: json where
  "row_d = JObj [(''id'', JInt 4), (''name'', JStr ''d'')]"

definition order_7 :: json where
  "order_7 = JObj [(''id'', JInt 7), (''total'', JInt 30)]"

definition shop_rows :: "string \<Rightarrow> json list" where
  "shop_rows t =
     (if t = ''users'' then [row_a_old, row_d] else if t = ''orders'' then [order_7] else [])"

definition shop_entries :: "(string \<times> json) list" where
  "shop_entries =
     [(''users'', JArr [row_a, row_b, row_c]),
      (''orders'', JArr []),
      (''items'', JObj [(''_error'', JStr ''timeout''), (''_backup_failed'', JBool True)])]"

definition shop_backup :: backup_file where
  "shop_backup =
     \<lparr>file_name = ''supabase_backup_20240101_004000.json'', mtime = 8,
      content = Some (JObj
        [(''metadata'', JObj
            [(''backup_date'', JStr ''2024-01-01T00:40:00''),
             (''timestamp'', JStr ''20240101_004000''),
             (''backup_type'', JStr ''full''),
             (''previous_backup'', JNull),
             (''total_tables'', JInt 3),
             (''tables'', JArr [JStr ''users'', JStr ''orders'', JStr ''items''])]),
         (''data'', JObj shop_entries)])\<rparr>"

definition shop_state :: state where
  "shop_state =
     \<lparr>backups_dir = [shop_backup], safety_dir = [], summaries_dir = [], requests = []\<rparr>"

section \<open>Properties of the change detector\<close>

subsection \<open>Order of the rows\<close>

lemma keyed_rows_Inr:
  "\<forall>r \<in> set R. \<exists>k. row_key r = Inr k \<Longrightarrow>
   keyed_rows R = Inr (map (\<lambda>r. (projr (row_key r), r)) R)"
  by (induction R) auto

lemma mset_short_eq:
  assumes "mset R' = mset R" and "length R \<le> 1"
  shows "R' = R"
proof (cases R)
  case Nil
  with assms show ?thesis by simp
next
  case (Cons x xs)
  with assms have "xs = []" by simp
  with Cons assms show ?thesis by simp
qed

lemma sorted_by_key_num:
  assumes "\<not> length keyed \<le> 1" and "\<forall>k \<in> set (map fst keyed). num_key k \<noteq> None"
  shows "sorted_by_key keyed = Inr (map snd (sort_key (\<lambda>p. the (num_key (fst p))) keyed))"
  using assms unfolding sorted_by_key_def by simp

lemma sorted_by_key_str:
  assumes "\<not> length keyed \<le> 1" and "\<not> (\<forall>k \<in> set (map fst keyed). num_key k \<noteq> None)"
    and "\<forall>k \<in> set (map fst keyed). str_key k \<noteq> None"
  shows "sorted_by_key keyed = Inr (map snd (sort_key (\<lambda>p. the (str_key (fst p))) keyed))"
  using assms unfolding sorted_by_key_def by auto

lemma sorted_by_key_perm:
  fixes g :: "json \<Rightarrow> json \<times> json"
  defines "g \<equiv> (\<lambda>r. (projr (row_key r), r))"
  assumes perm: "mset R' = mset R"
    and cls: "(\<forall>r \<in> set R. \<exists>n. row_key r = Inr (JInt n)) \<or> (\<forall>r \<in> set R. \<exists>s. row_key r = Inr (JStr s))"
    and inj: "\<forall>r \<in> set R. \<forall>r' \<in> set R. row_key r = row_key r' \<longrightarrow> r = r'"
  shows "sorted_by_key (map g R') = sorted_by_key (map g R)"
proof (cases "length R \<le> 1")
  case True
  with perm have "R' = R" by (rule mset_short_eq)
  then show ?thesis by simp
next
  case False
  from perm have len: "length R' = length R" by (rule mset_eq_length)
  from perm have sets: "set R' = set R" by (rule mset_eq_setD)
  from perm have mperm: "mset (map g R') = mset (map g R)" by simp
  from False have long: "\<not> length (map g R) \<le> 1" by simp
  from False len have long': "\<not> length (map g R') \<le> 1" by simp
  from False obtain r0 where r0: "r0 \<in> set R" by (cases R) auto
  from cls show ?thesis
  proof
    assume ints: "\<forall>r \<in> set R. \<exists>n. row_key r = Inr (JInt n)"
    then have num: "\<forall>k \<in> set (map fst (map g R)). num_key k \<noteq> None"
      by (auto simp: g_def)
    with sets have num': "\<forall>k \<in> set (map fst (map g R')). num_key k \<noteq> None"
      by simp
    have "inj_on (\<lambda>p. the (num_key (fst p))) (set (map g R'))"
    proof (rule inj_onI)
      fix p q
      assume p: "p \<in> set (map g R')" and q: "q \<in> set (map g R')"
        and eq: "the (num_key (fst p)) = the (num_key (fst q))"
      from p sets obtain r where r: "r \<in> set R" "p = g r" by auto
      from q sets obtain r' where r': "r' \<in> set R" "q = g r'" by auto
      from ints r obtain n where n: "row_key r = Inr (JInt n)" by blast
      from ints r' obtain n' where n': "row_key r' = Inr (JInt n')" by blast
      from eq r r' n n' have "n = n'" by (simp add: g_def)
      with n n' inj r r' have "r = r'" by auto
      with r r' show "p = q" by simp
    qed
    with mperm have "sort_key (\<lambda>p. the (num_key (fst p))) (map g R')
        = sort_key (\<lambda>p. the (num_key (fst p))) (map g R)"
      by (rule sort_key_eq_sort_key)
    then show ?thesis
      by (simp only: sorted_by_key_num [OF long num] sorted_by_key_num [OF long' num'])
  next
    assume strs: "\<forall>r \<in> set R. \<exists>s. row_key r = Inr (JStr s)"
    then have str: "\<forall>k \<in> set (map fst (map g R)). str_key k \<noteq> None"
      by (auto simp: g_def)
    with sets have str': "\<forall>k \<in> set (map fst (map g R')). str_key k \<noteq> None"
      by simp
    from strs r0 obtain s0 where "row_key r0 = Inr (JStr s0)" by blast
    then have "num_key (fst (g r0)) = None" by (simp add: g_def)
    with r0 have nonum: "\<not> (\<forall>k \<in> set (map fst (map g R)). num_key k \<noteq> None)"
      by force
    with sets have nonum': "\<not> (\<forall>k \<in> set (map fst (map g R')). num_key k \<noteq> None)"
      by simp
    have "inj_on (\<lambda>p. the (str_key (fst p))) (set (map g R'))"
    proof (rule inj_onI)
      fix p q
      assume p: "p \<in> set (map g R')" and q: "q \<in> set (map g R')"
        and eq: "the (str_key (fst p)) = the (str_key (fst q))"
      from p sets obtain r where r: "r \<in> set R" "p = g r" by auto
      from q sets obtain r' where r': "r' \<in> set R" "q = g r'" by auto
      from strs r obtain n where n: "row_key r = Inr (JStr n)" by blast
      from strs r' obtain n' where n': "row_key r' = Inr (JStr n')" by blast
      from eq r r' n n' have "n = n'" by (simp add: g_def)
      with n n' inj r r' have "r = r'" by auto
      with r r' show "p = q" by simp
    qed
    with mperm have "sort_key (\<lambda>p. the (str_key (fst p))) (map g R')
        = sort_key (\<lambda>p. the (str_key (fst p))) (map g R)"
      by (rule sort_key_eq_sort_key)
    then show ?thesis
      by (simp only: sorted_by_key_str [OF long nonum str] sorted_by_key_str [OF long' nonum' str'])
  qed
qed

lemma sorted_by_key_defined:
  assumes "(\<forall>r \<in> set R. \<exists>n. row_key r = Inr (JInt n)) \<or> (\<forall>r \<in> set R. \<exists>s. row_key r = Inr (JStr s))"
  shows "\<exists>rows. sorted_by_key (map (\<lambda>r. (projr (row_key r), r)) R) = Inr rows"
  using assms unfolding sorted_by_key_def by auto

text \<open>
  Claim C3, as the code has it.  The fingerprint of a row list does not depend on the order
  of the rows when the sort in \<open>calculate_table_hash\<close> succeeds and decides the order:
  every row is a dict, the sort keys (the \<^verbatim>\<open>id\<close>, or the text of a row without one) are
  all integers or all strings, and two rows with the same key are the same row.  Then any
  permutation of the rows has the same fingerprint.
\<close>

theorem calculate_table_hash_permutation:
  assumes perm: "mset R' = mset R"
    and cls: "(\<forall>r \<in> set R. \<exists>n. row_key r = Inr (JInt n)) \<or> (\<forall>r \<in> set R. \<exists>s. row_key r = Inr (JStr s))"
    and inj: "\<forall>r \<in> set R. \<forall>r' \<in> set R. row_key r = row_key r' \<longrightarrow> r = r'"
  shows "calculate_table_hash (JArr R') = calculate_table_hash (JArr R)"
proof -
  from perm have sets: "set R' = set R" by (rule mset_eq_setD)
  from cls have ok: "\<forall>r \<in> set R. \<exists>k. row_key r = Inr k" by auto
  then have k: "keyed_rows R = Inr (map (\<lambda>r. (projr (row_key r), r)) R)"
    by (rule keyed_rows_Inr)
  from ok sets have k': "keyed_rows R' = Inr (map (\<lambda>r. (projr (row_key r), r)) R')"
    by (intro keyed_rows_Inr) simp
  from cls obtain rows where rows: "sorted_by_key (map (\<lambda>r. (projr (row_key r), r)) R) = Inr rows"
    using sorted_by_key_defined by blast
  have "sorted_by_key (map (\<lambda>r. (projr (row_key r), r)) R')
      = sorted_by_key (map (\<lambda>r. (projr (row_key r), r)) R)"
    using perm cls inj by (rule sorted_by_key_perm)
  with rows have "sorted_rows (JArr R') = Inr rows" "sorted_rows (JArr R) = Inr rows"
    by (simp_all add: sorted_rows_def k k')
  moreover from sets have "truthy (JArr R') = truthy (JArr R)"
    by (cases R; cases R') auto
  ultimately show ?thesis
    unfolding calculate_table_hash_def by simp
qed

theorem calculate_table_hash_permutation_witness:
  "calculate_table_hash (JArr [JObj [(''id'', JInt 2)], JObj [(''id'', JInt 1)]])
     = calculate_table_hash (JArr [JObj [(''id'', JInt 1)], JObj [(''id'', JInt 2)]])"
  by (rule calculate_table_hash_permutation) simp_all

text \<open>
  With identifiers of mixed type the sort raises \<^verbatim>\<open>TypeError\<close>, the bare \<^verbatim>\<open>except\<close> keeps
  the rows in the order they came in, and the two orders of the same two rows have
  different fingerprints.
\<close>

lemma hash_int_then_str:
  "calculate_table_hash (JArr [JObj [(''id'', JInt 1)], JObj [(''id'', JStr ''a'')]])
     = ''5ffe5a9144e0cdfe4362b948ce90399f''"
  by code_simp

lemma hash_str_then_int:
  "calculate_table_hash (JArr [JObj [(''id'', JStr ''a'')], JObj [(''id'', JInt 1)]])
     = ''28f2a1abe1408ced930fc42f9c9e5489''"
  by code_simp

theorem calculate_table_hash_mixed_ids_order_dependent:
  "calculate_table_hash (JArr [JObj [(''id'', JInt 1)], JObj [(''id'', JStr ''a'')]])
     \<noteq> calculate_table_hash (JArr [JObj [(''id'', JStr ''a'')], JObj [(''id'', JInt 1)]])"
  by (simp add: hash_int_then_str hash_str_then_int)

subsection \<open>Classification against the previous rows\<close>

lemma collect_ids_distinct: "collect_ids rows = Inr ids \<Longrightarrow> distinct ids"
  by (induction rows arbitrary: ids) (auto split: sum.splits if_splits)

lemma collect_ids_append_split:
  "collect_ids (xs @ ys) = Inr c \<Longrightarrow>
   \<exists>a b. collect_ids xs = Inr a \<and> collect_ids ys = Inr b \<and> set c = set a \<union> set b"
proof (induction xs arbitrary: c)
  case Nil
  then show ?case by simp
next
  case (Cons x xs)
  then show ?case
    by (fastforce split: sum.splits if_splits)
qed

lemma collect_ids_append_join:
  "collect_ids xs = Inr a \<Longrightarrow> collect_ids ys = Inr b \<Longrightarrow>
   \<exists>c. collect_ids (xs @ ys) = Inr c \<and> set c = set a \<union> set b"
proof (induction xs arbitrary: a)
  case Nil
  then show ?case by simp
next
  case (Cons x xs)
  then show ?case
    by (fastforce split: sum.splits if_splits)
qed

lemma length_filter_fresh:
  assumes "distinct c" and "set c = insert i (set ids)" and "i \<notin> set ids"
  shows "length (filter (\<lambda>x. x \<notin> set ids) c) = 1"
proof -
  let ?F = "filter (\<lambda>x. x \<notin> set ids) c"
  from assms(1) have "distinct ?F" by simp
  then have "card (set ?F) = length ?F" by (rule distinct_card)
  moreover from assms(2,3) have "set ?F = {i}" by auto
  ultimately show ?thesis by simp
qed

text \<open>
  Comparing a row list with itself reports no change, whatever the rows are.
\<close>

lemma compare_table_data_same:
  "compare_table_data R (JArr R) =
     Inr \<lparr>changed = False, reason = None, hash = Some (calculate_table_hash (JArr R)),
          added_count = None, removed_count = None, current_count = None,
          previous_count = None\<rparr>"
  by (simp add: compare_table_data_def)

text \<open>
  The branch that counts.  It is taken when the two MD5 digests differ, and then, for the
  row list extended at any position with one more row whose \<^verbatim>\<open>id\<close> is truthy, can be a set
  element and is none of the old identifiers, one identifier is counted as added and none
  as removed.
\<close>

lemma compare_table_data_added:
  assumes prev: "id_set (JArr (R1 @ R2)) = Inr ids"
    and new: "py_get new ''id'' = Inr v" "truthy v" "set_element v = Inr i" "i \<notin> set ids"
    and digest: "calculate_table_hash (JArr (R1 @ new # R2)) \<noteq> calculate_table_hash (JArr (R1 @ R2))"
  shows "compare_table_data (R1 @ new # R2) (JArr (R1 @ R2)) =
           Inr \<lparr>changed = True, reason = None,
                hash = Some (calculate_table_hash (JArr (R1 @ new # R2))),
                added_count = Some 1, removed_count = Some 0,
                current_count = Some (length (R1 @ R2) + 1),
                previous_count = Some (length (R1 @ R2))\<rparr>"
proof -
  from prev have whole: "collect_ids (R1 @ R2) = Inr ids" by (simp add: id_set_def)
  then obtain a b where a: "collect_ids R1 = Inr a" and b: "collect_ids R2 = Inr b"
    and ids: "set ids = set a \<union> set b"
    using collect_ids_append_split by blast
  from new b have "collect_ids (new # R2) = Inr (List.insert i b)" by simp
  with a obtain c where c: "collect_ids (R1 @ new # R2) = Inr c"
    and "set c = set a \<union> set (List.insert i b)"
    using collect_ids_append_join by blast
  with ids have setc: "set c = insert i (set ids)" by auto
  from c have "distinct c" by (rule collect_ids_distinct)
  with setc new(4) have added: "length (filter (\<lambda>x. x \<notin> set ids) c) = 1"
    by (intro length_filter_fresh)
  from setc have removed: "filter (\<lambda>x. x \<notin> set c) ids = []" by (auto simp: filter_empty_conv)
  from c have cur: "id_set (JArr (R1 @ new # R2)) = Inr c" by (simp add: id_set_def)
  show ?thesis
    using digest by (simp add: compare_table_data_def cur prev added removed)
qed

text \<open>
  Claim C4, at an input where the code departs from it.  The previous rows are the one row
  with \<^verbatim>\<open>id\<close> 1.  With a new row of \<^verbatim>\<open>id\<close> 2 the report is a change with one identifier
  added.  With a new row of \<^verbatim>\<open>id\<close> 0, which is as fresh, the report is a change with no
  identifier added: \<^verbatim>\<open>if row.get('id')\<close>, meant to leave out the rows without \<^verbatim>\<open>id\<close>, also
  leaves out the row whose \<^verbatim>\<open>id\<close> is 0.
\<close>

theorem compare_table_data_zero_id_not_counted:
  "compare_table_data [JObj [(''id'', JInt 1)], JObj [(''id'', JInt 0)]]
       (JArr [JObj [(''id'', JInt 1)]]) =
     Inr \<lparr>changed = True, reason = None, hash = Some ''b08102173ff28f6abfc844d836a0b414'',
          added_count = Some 0, removed_count = Some 0,
          current_count = Some 2, previous_count = Some 1\<rparr>
   \<and> compare_table_data [JObj [(''id'', JInt 1)], JObj [(''id'', JInt 2)]]
         (JArr [JObj [(''id'', JInt 1)]]) =
      Inr \<lparr>changed = True, reason = None, hash = Some ''916a17294d658aa194046cfbd9c43ff6'',
           added_count = Some 1, removed_count = Some 0,
           current_count = Some 2, previous_count = Some 1\<rparr>
   \<and> compare_table_data [JObj [(''id'', JInt 1)]] (JArr [JObj [(''id'', JInt 1)]]) =
      Inr \<lparr>changed = False, reason = None, hash = Some ''61f914e4fc3dc54959ce1800944b5bfd'',
           added_count = None, removed_count = None, current_count = None,
           previous_count = None\<rparr>"
  by code_simp

section \<open>Properties of the backup run\<close>

subsection \<open>A table that cannot be fetched\<close>

text \<open>
  \<open>fetch_table_data\<close> has no error result: an exception on the first page leaves it with no
  rows, and that is what it returns.
\<close>

lemma fetch_table_data_error_first_page:
  "select_error r h t 0 = Some msg \<Longrightarrow> fetch_table_data r h t = []"
  by (simp add: fetch_table_data_def fetch_pages.simps)

text \<open>
  Claim C5 on the code: a full backup of \<^verbatim>\<open>users\<close> and \<^verbatim>\<open>orders\<close> from a store where every
  request for \<^verbatim>\<open>orders\<close> raises.  The run is not aborted and \<^verbatim>\<open>users\<close> is stored with its
  row, but \<^verbatim>\<open>orders\<close> is not marked as failed: it is stored as the empty list and counted
  among the successful tables, and \<^verbatim>\<open>failed_tables\<close> is empty.
\<close>

theorem create_backup_fetch_error_stored_as_empty:
  "create_backup orders_unreachable two_tables_env True empty_state =
    (True,
     \<lparr>backups_dir =
        [\<lparr>file_name = ''supabase_backup_20240101_000500.json'', mtime = 5,
          content = Some (JObj
            [(''metadata'', JObj
               [(''backup_date'', JStr ''2024-01-01T00:05:00''),
                (''timestamp'', JStr ''20240101_000500''),
                (''backup_type'', JStr ''full''),
                (''previous_backup'', JNull),
                (''total_tables'', JInt 2),
                (''tables'', JArr [JStr ''users'', JStr ''orders'']),
                (''total_rows'', JInt 1),
                (''successful_tables'', JInt 2),
                (''failed_tables'', JArr []),
                (''failed_count'', JInt 0),
                (''unchanged_tables'', JArr []),
                (''changed_tables'', JArr [JStr ''users'']),
                (''unchanged_count'', JInt 0),
                (''changed_count'', JInt 1)]),
             (''data'', JObj
               [(''users'', JArr [JObj [(''id'', JInt 1)]]),
                (''orders'', JArr [])])])\<rparr>],
      safety_dir = [],
      summaries_dir = [''backup_summary_20240101_000500.json''],
      requests = []\<rparr>)"
  by code_simp

subsection \<open>Pruning\<close>

lemma newest_first_set [simp]: "set (newest_first fs) = set fs"
  by (simp add: newest_first_def)

lemma newest_first_length [simp]: "length (newest_first fs) = length fs"
  by (simp add: newest_first_def)

lemma newest_first_distinct [simp]: "distinct (newest_first fs) = distinct fs"
  by (simp add: newest_first_def)

lemma newest_first_descending: "sorted (rev (map mtime (newest_first fs)))"
  by (simp add: newest_first_def rev_map [symmetric])

lemma newest_first_take_drop:
  assumes "k \<in> set (take n (newest_first fs))" and "d \<in> set (drop n (newest_first fs))"
  shows "mtime d \<le> mtime k"
proof -
  have "sorted (rev (map mtime (take n (newest_first fs) @ drop n (newest_first fs))))"
    using newest_first_descending [of fs] by simp
  then have "sorted (rev (map mtime (drop n (newest_first fs))) @ rev (map mtime (take n (newest_first fs))))"
    by (simp only: map_append rev_append)
  with assms show ?thesis
    by (auto simp: sorted_append)
qed

lemma fold_unlink_backups_dir:
  "backups_dir (fold (unlink_backup sn) ds st) =
     filter (\<lambda>f. file_name f \<notin> file_name ` set ds) (backups_dir st)"
  by (induction ds arbitrary: st) (auto simp: unlink_backup_def intro: filter_cong)

lemma fold_unlink_summaries_dir:
  "set (summaries_dir (fold (unlink_backup sn) ds st)) =
     set (summaries_dir st) - (\<lambda>f. sn (file_name f)) ` set ds"
  by (induction ds arbitrary: st) (auto simp: unlink_backup_def)

lemma prune_kept:
  fixes P :: "string \<Rightarrow> bool"
  assumes names: "distinct (map file_name dir)"
    and more: "n < length (filter (\<lambda>f. P (file_name f)) dir)"
  defines "B \<equiv> filter (\<lambda>f. P (file_name f)) dir"
  defines "del \<equiv> drop n (newest_first B)"
  defines "B' \<equiv> filter (\<lambda>f. P (file_name f)) (filter (\<lambda>f. file_name f \<notin> file_name ` set del) dir)"
  shows "set B' = set (take n (newest_first B))" and "length B' = n" and "set B - set B' = set del"
proof -
  have dB: "distinct B" using names by (simp add: B_def distinct_map)
  then have dS: "distinct (newest_first B)" by simp
  have inj: "inj_on file_name (set dir)" using names by (simp add: distinct_map)
  have del_sub: "set del \<subseteq> set B"
    unfolding del_def using set_drop_subset [of n "newest_first B"] by simp
  have B_sub: "set B \<subseteq> set dir" by (auto simp: B_def)
  have mem: "file_name f \<in> file_name ` set del \<longleftrightarrow> f \<in> set del" if "f \<in> set dir" for f
  proof
    assume "file_name f \<in> file_name ` set del"
    then obtain g where g: "g \<in> set del" "file_name f = file_name g" by auto
    with del_sub B_sub have "g \<in> set dir" by auto
    with inj that g show "f \<in> set del" by (auto dest: inj_onD)
  qed auto
  have "filter (\<lambda>f. file_name f \<notin> file_name ` set del) dir = filter (\<lambda>f. f \<notin> set del) dir"
    by (rule filter_cong) (simp_all add: mem)
  then have B'_eq: "B' = filter (\<lambda>f. f \<notin> set del) B"
    unfolding B'_def B_def by (simp add: conj_commute)
  have split: "set B = set (take n (newest_first B)) \<union> set del"
    unfolding del_def using set_append [of "take n (newest_first B)" "drop n (newest_first B)"]
    by simp
  have disj: "set (take n (newest_first B)) \<inter> set del = {}"
    unfolding del_def using dS distinct_append [of "take n (newest_first B)" "drop n (newest_first B)"]
    by simp
  from split disj show kept: "set B' = set (take n (newest_first B))"
    unfolding B'_eq by auto
  from split disj show "set B - set B' = set del"
    unfolding B'_eq by auto
  have "distinct B'" unfolding B'_eq using dB by simp
  then have "length B' = card (set B')" by (simp add: distinct_card)
  also have "\<dots> = card (set (take n (newest_first B)))" by (simp only: kept)
  also have "\<dots> = length (take n (newest_first B))"
    using dS by (intro distinct_card) simp
  also have "\<dots> = n" using more by (simp add: B_def)
  finally show "length B' = n" .
qed

lemma fold_unlink_other_dirs:
  "safety_dir (fold (unlink_backup sn) ds st) = safety_dir st"
  "requests (fold (unlink_backup sn) ds st) = requests st"
  by (induction ds arbitrary: st) (auto simp: unlink_backup_def)

lemma prune_keeps_newest:
  fixes P :: "string \<Rightarrow> bool" and sn :: "string \<Rightarrow> string"
  assumes names: "distinct (map file_name (backups_dir st))"
    and more: "keep_count < length (filter (\<lambda>f. P (file_name f)) (backups_dir st))"
  defines "st' \<equiv> fold (unlink_backup sn)
      (drop keep_count (newest_first (filter (\<lambda>f. P (file_name f)) (backups_dir st)))) st"
  shows "let before = filter (\<lambda>f. P (file_name f)) (backups_dir st);
             after = filter (\<lambda>f. P (file_name f)) (backups_dir st')
         in length after = keep_count
          \<and> set after \<subseteq> set before
          \<and> (\<forall>k \<in> set after. \<forall>d \<in> set before - set after. mtime d \<le> mtime k)
          \<and> (\<forall>d \<in> set before - set after. sn (file_name d) \<notin> set (summaries_dir st'))"
proof -
  define B where "B = filter (\<lambda>f. P (file_name f)) (backups_dir st)"
  define del where "del = drop keep_count (newest_first B)"
  define B' where "B' = filter (\<lambda>f. P (file_name f)) (backups_dir st')"
  have st': "st' = fold (unlink_backup sn) del st"
    by (simp add: st'_def del_def B_def)
  have B': "B' = filter (\<lambda>f. P (file_name f))
                  (filter (\<lambda>f. file_name f \<notin> file_name ` set del) (backups_dir st))"
    by (simp add: B'_def st' fold_unlink_backups_dir)
  have kept: "set B' = set (take keep_count (newest_first B))"
    and len: "length B' = keep_count" and gone: "set B - set B' = set del"
    unfolding B' del_def B_def using prune_kept [OF names more] by simp_all
  have sub: "set B' \<subseteq> set B"
    using kept set_take_subset [of keep_count "newest_first B"] by simp
  have newest: "\<forall>k \<in> set B'. \<forall>d \<in> set B - set B'. mtime d \<le> mtime k"
  proof (intro ballI)
    fix k d
    assume "k \<in> set B'" and "d \<in> set B - set B'"
    then have "k \<in> set (take keep_count (newest_first B))"
      and "d \<in> set (drop keep_count (newest_first B))"
      using kept gone unfolding del_def by blast+
    then show "mtime d \<le> mtime k" by (rule newest_first_take_drop)
  qed
  have summaries: "\<forall>d \<in> set B - set B'. sn (file_name d) \<notin> set (summaries_dir st')"
  proof
    fix d
    assume "d \<in> set B - set B'"
    then have "d \<in> set del" using gone by simp
    then show "sn (file_name d) \<notin> set (summaries_dir st')"
      by (simp add: st' fold_unlink_summaries_dir)
  qed
  from len sub newest summaries show ?thesis
    unfolding Let_def B_def [symmetric] B'_def [symmetric] by simp
qed

text \<open>
  Claim C9, as the code has it (\<^verbatim>\<open>backup_supabase.py\<close>).  When more than \<open>keep_count\<close> backup
  files exist, pruning leaves exactly \<open>keep_count\<close> of them, all of them files that were
  there, none older than any deleted one, and the summary of every deleted backup is
  gone.  The default is 288, and 288 backups five minutes apart span 24 hours.  Nothing
  is said about references: pruning counts files and reads none.
\<close>

theorem cleanup_old_backups_keeps_newest:
  assumes names: "distinct (map file_name (backups_dir st))"
    and more: "keep_count < length (filter (\<lambda>f. glob_json (file_name f)) (backups_dir st))"
  shows "let st' = cleanup_old_backups keep_count st;
             before = filter (\<lambda>f. glob_json (file_name f)) (backups_dir st);
             after = filter (\<lambda>f. glob_json (file_name f)) (backups_dir st')
         in length after = keep_count
          \<and> set after \<subseteq> set before
          \<and> (\<forall>k \<in> set after. \<forall>d \<in> set before - set after. mtime d \<le> mtime k)
          \<and> (\<forall>d \<in> set before - set after. summary_name (file_name d) \<notin> set (summaries_dir st'))
          \<and> default_keep_count = 288 \<and> default_keep_count * 5 = 24 * 60"
proof -
  have eq: "cleanup_old_backups keep_count st =
      fold (unlink_backup summary_name)
        (drop keep_count (newest_first (filter (\<lambda>f. glob_json (file_name f)) (backups_dir st)))) st"
    using more by (simp add: cleanup_old_backups_def Let_def)
  note gen = prune_keeps_newest [OF names more, of summary_name, unfolded Let_def]
  have d: "default_keep_count = 288 \<and> default_keep_count * 5 = 24 * 60"
    by (simp add: default_keep_count_def)
  show ?thesis
    unfolding Let_def eq using gen d by blast
qed

lemma chain_names_distinct: "distinct (map file_name (backups_dir chain_state))"
  by code_simp

lemma chain_three_backups:
  "2 < length (filter (\<lambda>f. glob_json (file_name f)) (backups_dir chain_state))"
  by code_simp

theorem cleanup_old_backups_keeps_newest_witness:
  "length (filter (\<lambda>f. glob_json (file_name f))
       (backups_dir (cleanup_old_backups 2 chain_state))) = 2
   \<and> default_keep_count = 288"
  using cleanup_old_backups_keeps_newest [OF chain_names_distinct chain_three_backups]
  by (simp add: Let_def)

text \<open>The same holds for the function of \<^verbatim>\<open>supabase_backup.py\<close>.\<close>

lemma cleanup_old_backups_aio_keeps_newest:
  assumes names: "distinct (map file_name (backups_dir st))"
    and more: "keep_count < length (filter (\<lambda>f. glob_json_any (file_name f)) (backups_dir st))"
  shows "let st' = cleanup_old_backups_aio keep_count st;
             before = filter (\<lambda>f. glob_json_any (file_name f)) (backups_dir st);
             after = filter (\<lambda>f. glob_json_any (file_name f)) (backups_dir st')
         in length after = keep_count
          \<and> set after \<subseteq> set before
          \<and> (\<forall>k \<in> set after. \<forall>d \<in> set before - set after. mtime d \<le> mtime k)
          \<and> (\<forall>d \<in> set before - set after.
                summary_name_aio (file_name d) \<notin> set (summaries_dir st'))"
proof -
  have eq: "cleanup_old_backups_aio keep_count st =
      fold (unlink_backup summary_name_aio)
        (drop keep_count (newest_first (filter (\<lambda>f. glob_json_any (file_name f)) (backups_dir st)))) st"
    using more by (simp add: cleanup_old_backups_aio_def Let_def)
  note gen = prune_keeps_newest [OF names more, of summary_name_aio, unfolded Let_def]
  show ?thesis
    unfolding Let_def eq using gen by blast
qed

text \<open>
  Two backups, S1 with the rows and S2 referencing it, pruned to one: S2 survives, the
  file its marker references is deleted, and the rows the marker stood for can no
  longer be found.
\<close>

theorem cleanup_old_backups_breaks_reference:
  "backups_dir (cleanup_old_backups 1 (chain_state\<lparr>backups_dir := [snapshot1, snapshot2]\<rparr>))
     = [snapshot2]
   \<and> referenced_table_data (chain_state\<lparr>backups_dir := [snapshot1, snapshot2]\<rparr>)
         [(''_unchanged'', JBool True), (''_reference_backup'', JStr ''20240101_000000'')]
         ''users''
     = JArr [row_a, row_b]
   \<and> referenced_table_data
         (cleanup_old_backups 1 (chain_state\<lparr>backups_dir := [snapshot1, snapshot2]\<rparr>))
         [(''_unchanged'', JBool True), (''_reference_backup'', JStr ''20240101_000000'')]
         ''users''
     = JNull"
  by code_simp

section \<open>Properties of the restore\<close>

subsection \<open>Chains of incremental backups\<close>

text \<open>
  Three backup runs over a table that does not change leave the chain S1, S2, S3 of the
  scenario: the second run compares with the rows of S1 and writes a marker referencing
  S1, the third finds that marker, compares with the rows it references, and writes a
  marker referencing S2.
\<close>

lemma three_backup_runs_build_the_chain:
  "snd (create_backup users_remote (users_env ''20240101_001000'' ''2024-01-01T00:10:00'' 3) False
     (snd (create_backup users_remote (users_env ''20240101_000500'' ''2024-01-01T00:05:00'' 2) False
        (snd (create_backup users_remote (users_env ''20240101_000000'' ''2024-01-01T00:00:00'' 1) False
           empty_state))))) = chain_state"
  by code_simp

lemma map_of_merge_unchanged:
  "map_of (merge_unchanged previous_entries entries) table =
     map_option
       (\<lambda>data. if has_flag data ''_unchanged''
               then (case map_of previous_entries table of None \<Rightarrow> JArr [] | Some v \<Rightarrow> v)
               else data)
       (map_of entries table)"
  by (induction entries) (auto simp: merge_unchanged_def)

lemma resolve_incremental_merges:
  assumes "dict_get metadata ''backup_type'' = JStr ''incremental''"
    and "dict_get metadata ''previous_backup'' = JStr ts" and "ts \<noteq> []"
    and "find_backup_aio st (''supabase_backup_'' @ ts @ ''.json'') = Some f"
    and "content f = Some prev_backup"
    and "py_subscript prev_backup ''data'' = Inr (JObj previous_entries)"
  shows "resolve_incremental st metadata entries = merge_unchanged previous_entries entries"
  using assms by (simp add: resolve_incremental_def)






text \<open>
  Claim C2, as the code has it.  \<open>resolve_incremental\<close> is not recursive: it reads one
  backup and returns, whatever the markers reference, so a cycle cannot make it loop.  For
  a table whose marker leads to a backup where the table is a marker again (as in a cycle
  of two), the entry stays a marker, and preparing the restore tasks yields no task, no
  failed table and no error.
\<close>

theorem cyclic_chain_is_skipped:
  assumes "dict_get metadata ''backup_type'' = JStr ''incremental''"
    and "dict_get metadata ''previous_backup'' = JStr ts" and "ts \<noteq> []"
    and "find_backup_aio st (''supabase_backup_'' @ ts @ ''.json'') = Some f"
    and "content f = Some prev_backup"
    and "py_subscript prev_backup ''data'' = Inr (JObj previous_entries)"
    and "map_of entries table = Some marker" and "has_flag marker ''_unchanged''"
    and "map_of previous_entries table = Some back" and "has_flag back ''_unchanged''"
    and "\<not> has_flag back ''_backup_failed''"
  shows "dict_get (resolve_incremental st metadata entries) table = back
       \<and> prepare_tasks (resolve_incremental st metadata entries) [table] = Inr ([], [])"
proof -
  have "resolve_incremental st metadata entries = merge_unchanged previous_entries entries"
    using assms(1-6) by (rule resolve_incremental_merges)
  with assms(7-9) have entry: "dict_get (resolve_incremental st metadata entries) table = back"
    by (simp add: dict_get_def map_of_merge_unchanged)
  from assms(10,11) have "plan_table back = Inr Skip"
    by (simp add: plan_table_def)
  with entry show ?thesis by simp
qed

theorem cyclic_chain_is_skipped_witness:
  "dict_get (resolve_incremental cyclic_state (metadata_of cycle1) (entries_of cycle1)) ''users''
     = unchanged_marker ''20240101_000000''
   \<and> prepare_tasks (resolve_incremental cyclic_state (metadata_of cycle1) (entries_of cycle1))
        [''users''] = Inr ([], [])"
proof -
  have 1: "dict_get (metadata_of cycle1) ''backup_type'' = JStr ''incremental''"
    by code_simp
  have 2: "dict_get (metadata_of cycle1) ''previous_backup'' = JStr ''20240101_000500''"
    by code_simp
  have 3: "''20240101_000500'' \<noteq> []" by simp
  have 4: "find_backup_aio cyclic_state (''supabase_backup_'' @ ''20240101_000500'' @ ''.json'')
      = Some cycle2"
    by code_simp
  have 5: "content cycle2 = Some (the (content cycle2))" by code_simp
  have 6: "py_subscript (the (content cycle2)) ''data'' = Inr (JObj (entries_of cycle2))"
    by code_simp
  have 7: "map_of (entries_of cycle1) ''users'' = Some (unchanged_marker ''20240101_000500'')"
    by code_simp
  have 8: "has_flag (unchanged_marker ''20240101_000500'') ''_unchanged''" by code_simp
  have 9: "map_of (entries_of cycle2) ''users'' = Some (unchanged_marker ''20240101_000000'')"
    by code_simp
  have 10: "has_flag (unchanged_marker ''20240101_000000'') ''_unchanged''" by code_simp
  have 11: "\<not> has_flag (unchanged_marker ''20240101_000000'') ''_backup_failed''" by code_simp
  show ?thesis
    by (rule cyclic_chain_is_skipped [OF 1 2 3 4 5 6 7 8 9 10 11])
qed

text \<open>
  On the cycle of the scenario the restore of S1 returns success, with an ordinary restore
  log that lists no restored and no failed table: no error of any kind is reported.
\<close>

theorem restore_of_cyclic_chain_reports_success:
  "fst (restore_backup_aio users_remote (users_env ''20240101_002000'' ''2024-01-01T00:20:00'' 5)
     ''supabase_backup_20240101_000000.json'' True cyclic_state)
   = (True, None,
      Full_log
        \<lparr>started_at = ''2024-01-01T00:20:00'',
         log_backup_file = ''supabase_backup_20240101_000000.json'',
         safety_backup_file = None, before_counts = [(''users'', 0)],
         tables_restored = [], tables_failed = [], total_inserted = 0,
         total_updated = 0, total_errors = 0, after_counts = [(''users'', 0)],
         completed_at = ''2024-01-01T00:20:00''\<rparr>)"
  by code_simp

subsection \<open>The safety backup\<close>

lemma create_safety_backup_aio_None:
  "create_safety_backup_aio r e st = (None, st') \<Longrightarrow> st' = st"
  by (auto simp: create_safety_backup_aio_def Let_def split: if_splits)

lemma create_safety_backup_None:
  "create_safety_backup r e st = (None, st') \<Longrightarrow> st' = st"
  by (auto simp: create_safety_backup_def Let_def split: if_splits)

text \<open>
  Claim C6.  When the caller has not asked to skip the safety backup and creating it
  fails, both \<open>restore_backup_aio\<close> (\<^verbatim>\<open>supabase_backup.py\<close>) and \<open>restore_backup_safe\<close>
  (\<^verbatim>\<open>backup_supabase_safe.py\<close>) return \<^verbatim>\<open>(False, None, {})\<close> and leave the state as it was: no
  request has been sent to the remote store and no file has been written.
\<close>

theorem restore_cancelled_without_safety_backup:
  "(fst (create_safety_backup_aio r e st) = None \<longrightarrow>
      restore_backup_aio r e backup_file False st = ((False, None, No_log), st))
   \<and> (fst (create_safety_backup r e st) = None \<longrightarrow>
      restore_backup_safe r e backup_file False st = ((False, None, No_log), st))"
proof (intro conjI impI)
  assume none: "fst (create_safety_backup_aio r e st) = None"
  then obtain st' where "create_safety_backup_aio r e st = (None, st')"
    by (cases "create_safety_backup_aio r e st") simp
  moreover from this have "st' = st" by (rule create_safety_backup_aio_None)
  ultimately show "restore_backup_aio r e backup_file False st = ((False, None, No_log), st)"
    by (simp add: restore_backup_aio_def split: option.splits)
next
  assume none: "fst (create_safety_backup r e st) = None"
  then obtain st' where "create_safety_backup r e st = (None, st')"
    by (cases "create_safety_backup r e st") simp
  moreover from this have "st' = st" by (rule create_safety_backup_None)
  ultimately show "restore_backup_safe r e backup_file False st = ((False, None, No_log), st)"
    by (simp add: restore_backup_safe_def split: option.splits)
qed

lemma full_disk_no_safety_backup:
  "fst (create_safety_backup_aio users_remote
          ((users_env ''20240101_002000'' ''2024-01-01T00:20:00'' 5)\<lparr>disk_ok := False\<rparr>)
          chain_state) = None"
  by code_simp

theorem restore_cancelled_without_safety_backup_witness:
  "restore_backup_aio users_remote
      ((users_env ''20240101_002000'' ''2024-01-01T00:20:00'' 5)\<lparr>disk_ok := False\<rparr>)
      ''supabase_backup_20240101_000500.json'' False chain_state
   = ((False, None, No_log), chain_state)"
  using restore_cancelled_without_safety_backup
    [THEN conjunct1, rule_format, OF full_disk_no_safety_backup] .

subsection \<open>Validation\<close>

lemma validate_backup_data_invalid_iff:
  assumes "validate_backup_data (JObj kvs) = Inr (v, errs, warns)"
  shows "\<not> v \<longleftrightarrow> \<not> truthy (dict_get kvs ''metadata'') \<or> \<not> truthy (dict_get kvs ''data'')"
  using assms
  by (auto simp: validate_backup_data_def split: if_splits json.splits)

lemma validate_backup_data_warnings_only:
  assumes "truthy (dict_get kvs ''metadata'')" and "dict_get kvs ''data'' = JObj entries"
    and "entries \<noteq> []"
  shows "validate_backup_data (JObj kvs) =
           Inr (True, [], concat (map (critical_warning entries) critical_tables)
                            @ concat (map table_warning entries))"
  using assms by (simp add: validate_backup_data_def)

lemma create_safety_backup_requests:
  "requests (snd (create_safety_backup r e st)) = requests st"
  by (simp add: create_safety_backup_def Let_def)

lemma restore_backup_safe_invalid:
  assumes "find_file (backups_dir st) f = Some file" and "content file = Some doc"
    and "validate_backup_data doc = Inr (False, errs, warns)"
  shows "fst (fst (restore_backup_safe r e f skip st)) = False
       \<and> requests (snd (restore_backup_safe r e f skip st)) = requests st"
proof (cases "create_safety_backup r e st")
  case (Pair name st1)
  with create_safety_backup_requests [of r e st] have "requests st1 = requests st" by simp
  with Pair assms show ?thesis
    by (cases name) (simp_all add: restore_backup_safe_def)
qed

lemma create_safety_backup_written:
  assumes "env_file e" and "credentials e" and "disk_ok e"
  shows "create_safety_backup r e st
     = (Some (''safety_backup_'' @ now e @ ''.json''),
        st\<lparr>safety_dir := write_file (''safety_backup_'' @ now e @ ''.json'') (clock e)
                            (safety_document r e st) (safety_dir st)\<rparr>)"
  using assms by (simp add: create_safety_backup_def Let_def)

lemma restore_backup_safe_valid:
  assumes "find_file (backups_dir st) f = Some file" and "content file = Some doc"
    and "validate_backup_data doc = Inr (True, errs, warns)"
    and "env_file e" and "credentials e" and "skip \<or> disk_ok e"
  shows "\<exists>entries. dict_get_obj doc ''data'' = Some entries
           \<and> restore_backup_safe r e f skip st
               = (if skip then restore_validated_safe r e f None doc entries st
                  else restore_validated_safe r e f
                         (Some (''safety_backup_'' @ now e @ ''.json'')) doc entries
                         (st\<lparr>safety_dir :=
                               write_file (''safety_backup_'' @ now e @ ''.json'') (clock e)
                                 (safety_document r e st) (safety_dir st)\<rparr>))"
proof -
  from assms(3) obtain kvs entries where "doc = JObj kvs" and "dict_get kvs ''data'' = JObj entries"
    by (cases doc) (auto simp: validate_backup_data_def split: if_splits json.splits)
  then have data: "dict_get_obj doc ''data'' = Some entries"
    by (auto simp: dict_get_obj_def dict_get_def split: option.splits)
  show ?thesis
  proof (cases skip)
    case True
    with assms data show ?thesis by (simp add: restore_backup_safe_def)
  next
    case False
    with assms(6) have "disk_ok e" by simp
    with assms(4,5) have "create_safety_backup r e st
       = (Some (''safety_backup_'' @ now e @ ''.json''),
          st\<lparr>safety_dir := write_file (''safety_backup_'' @ now e @ ''.json'') (clock e)
                            (safety_document r e st) (safety_dir st)\<rparr>)"
      by (rule create_safety_backup_written)
    with False assms data show ?thesis by (simp add: restore_backup_safe_def)
  qed
qed

text \<open>
  Claim C7, as the code has it (\<^verbatim>\<open>backup_supabase_safe.py\<close>).  A backup is classified as
  invalid exactly when its \<^verbatim>\<open>metadata\<close> or its \<^verbatim>\<open>data\<close> is falsy: absent, \<^verbatim>\<open>None\<close> or empty.
  With both present and not empty the result is valid with no error, whatever warnings
  the missing critical tables and the rows without \<^verbatim>\<open>id\<close> give.  When the restore finds the
  backup invalid it returns failure and has sent no request to the remote store, with or
  without a safety backup.  When it finds it valid it goes on with the rest of the restore:
  from the state it was called in when the safety backup is skipped, and otherwise, the
  safety backup being written first, from the state that has the safety backup.
\<close>

theorem validate_backup_data_gates_restore:
  "(validate_backup_data (JObj kvs) = Inr (v, errs, warns) \<longrightarrow>
      (\<not> v \<longleftrightarrow> \<not> truthy (dict_get kvs ''metadata'') \<or> \<not> truthy (dict_get kvs ''data'')))
   \<and> (truthy (dict_get kvs ''metadata'') \<and> dict_get kvs ''data'' = JObj entries \<and> entries \<noteq> [] \<longrightarrow>
        validate_backup_data (JObj kvs) =
          Inr (True, [], concat (map (critical_warning entries) critical_tables)
                           @ concat (map table_warning entries)))
   \<and> (find_file (backups_dir st) f = Some file \<and> content file = Some doc \<longrightarrow>
        (validate_backup_data doc = Inr (False, errs', warns') \<longrightarrow>
           fst (fst (restore_backup_safe r e f skip st)) = False
           \<and> requests (snd (restore_backup_safe r e f skip st)) = requests st)
        \<and> (validate_backup_data doc = Inr (True, errs', warns') \<and> env_file e \<and> credentials e
             \<and> (skip \<or> disk_ok e) \<longrightarrow>
             (\<exists>data. dict_get_obj doc ''data'' = Some data
                \<and> restore_backup_safe r e f skip st
                    = (if skip then restore_validated_safe r e f None doc data st
                       else restore_validated_safe r e f
                              (Some (''safety_backup_'' @ now e @ ''.json'')) doc data
                              (st\<lparr>safety_dir :=
                                    write_file (''safety_backup_'' @ now e @ ''.json'') (clock e)
                                      (safety_document r e st) (safety_dir st)\<rparr>)))))"
  using validate_backup_data_invalid_iff [of kvs v errs warns]
    validate_backup_data_warnings_only [of kvs entries]
    restore_backup_safe_invalid [of st f "file" doc "errs'" "warns'" r e skip]
    restore_backup_safe_valid [of st f "file" doc "errs'" "warns'" e skip r]
  by blast


theorem validate_backup_data_gates_restore_witness:
  "fst (fst (restore_backup_safe users_remote (users_env ''20240101_002000'' ''2024-01-01T00:20:00'' 5)
       ''supabase_backup_20240101_003000.json'' False
       (chain_state\<lparr>backups_dir := [empty_data_backup]\<rparr>))) = False
   \<and> requests (snd (restore_backup_safe users_remote
         (users_env ''20240101_002000'' ''2024-01-01T00:20:00'' 5)
         ''supabase_backup_20240101_003000.json'' False
         (chain_state\<lparr>backups_dir := [empty_data_backup]\<rparr>))) = []
   \<and> validate_backup_data (the (content nameless_backup))
       = Inr (True, [],
              [''Critical table '' @ quoted ''packages'' @ '' not found in backup'',
               ''Critical table '' @ quoted ''bookings'' @ '' not found in backup'',
               ''Table '' @ quoted ''users'' @ '' rows missing '' @ quoted ''id'' @ '' field''])
   \<and> restore_backup_safe users_remote (users_env ''20240101_002000'' ''2024-01-01T00:20:00'' 5)
         ''supabase_backup_20240101_003500.json'' False
         (chain_state\<lparr>backups_dir := [nameless_backup]\<rparr>)
       = restore_validated_safe users_remote (users_env ''20240101_002000'' ''2024-01-01T00:20:00'' 5)
           ''supabase_backup_20240101_003500.json'' (Some ''safety_backup_20240101_002000.json'')
           (the (content nameless_backup)) (entries_of nameless_backup)
           (chain_state\<lparr>backups_dir := [nameless_backup],
              safety_dir := [\<lparr>file_name = ''safety_backup_20240101_002000.json'', mtime = 5,
                 content = Some (safety_document users_remote
                    (users_env ''20240101_002000'' ''2024-01-01T00:20:00'' 5)
                    (chain_state\<lparr>backups_dir := [nameless_backup]\<rparr>))\<rparr>]\<rparr>)
   \<and> fst (fst (restore_backup_safe users_remote (users_env ''20240101_002000'' ''2024-01-01T00:20:00'' 5)
         ''supabase_backup_20240101_003500.json'' False
         (chain_state\<lparr>backups_dir := [nameless_backup]\<rparr>))) = True
   \<and> requests (snd (restore_backup_safe users_remote
         (users_env ''20240101_002000'' ''2024-01-01T00:20:00'' 5)
         ''supabase_backup_20240101_003500.json'' False
         (chain_state\<lparr>backups_dir := [nameless_backup]\<rparr>)))
       = [Upsert ''users'' (JArr [JObj [(''name'', JStr ''c'')]])]
   \<and> restore_backup_safe users_remote (users_env ''20240101_002000'' ''2024-01-01T00:20:00'' 5)
         ''supabase_backup_20240101_000000.json'' True chain_state
       = restore_validated_safe users_remote (users_env ''20240101_002000'' ''2024-01-01T00:20:00'' 5)
           ''supabase_backup_20240101_000000.json'' None (the (content snapshot1))
           (entries_of snapshot1) chain_state"
proof -
  let ?e = "users_env ''20240101_002000'' ''2024-01-01T00:20:00'' 5"
  let ?bad = "chain_state\<lparr>backups_dir := [empty_data_backup]\<rparr>"
  let ?warn = "chain_state\<lparr>backups_dir := [nameless_backup]\<rparr>"
  have b1: "find_file (backups_dir ?bad) ''supabase_backup_20240101_003000.json''
      = Some empty_data_backup \<and> content empty_data_backup = Some (the (content empty_data_backup))"
    by code_simp
  have b2: "validate_backup_data (the (content empty_data_backup))
      = Inr (False, [''Missing data in backup''], [])"
    by code_simp
  have b3: "requests ?bad = []" by code_simp
  have w1: "find_file (backups_dir ?warn) ''supabase_backup_20240101_003500.json''
      = Some nameless_backup \<and> content nameless_backup = Some (the (content nameless_backup))"
    by code_simp
  have w2: "validate_backup_data (the (content nameless_backup))
       = Inr (True, [],
              [''Critical table '' @ quoted ''packages'' @ '' not found in backup'',
               ''Critical table '' @ quoted ''bookings'' @ '' not found in backup'',
               ''Table '' @ quoted ''users'' @ '' rows missing '' @ quoted ''id'' @ '' field''])"
    by code_simp
  have w3: "env_file ?e \<and> credentials ?e \<and> (False \<or> disk_ok ?e)" by code_simp
  have w4: "dict_get_obj (the (content nameless_backup)) ''data'' = Some (entries_of nameless_backup)"
    by code_simp
  have w5: "now ?e = ''20240101_002000'' \<and> clock ?e = 5 \<and> safety_dir ?warn = []"
    by code_simp
  have w6: "fst (fst (restore_backup_safe users_remote ?e
         ''supabase_backup_20240101_003500.json'' False ?warn)) = True
     \<and> requests (snd (restore_backup_safe users_remote ?e
         ''supabase_backup_20240101_003500.json'' False ?warn))
       = [Upsert ''users'' (JArr [JObj [(''name'', JStr ''c'')]])]"
    by code_simp
  have g1: "find_file (backups_dir chain_state) ''supabase_backup_20240101_000000.json''
      = Some snapshot1 \<and> content snapshot1 = Some (the (content snapshot1))"
    by code_simp
  have g2: "validate_backup_data (the (content snapshot1))
      = Inr (True, [],
             [''Critical table '' @ quoted ''packages'' @ '' not found in backup'',
              ''Critical table '' @ quoted ''bookings'' @ '' not found in backup''])
      \<and> env_file ?e \<and> credentials ?e \<and> (True \<or> disk_ok ?e)"
    by code_simp
  have g3: "dict_get_obj (the (content snapshot1)) ''data'' = Some (entries_of snapshot1)"
    by code_simp
  note gate = validate_backup_data_gates_restore [THEN conjunct2, THEN conjunct2, rule_format]
  have invalid: "fst (fst (restore_backup_safe users_remote ?e
       ''supabase_backup_20240101_003000.json'' False ?bad)) = False
     \<and> requests (snd (restore_backup_safe users_remote ?e
       ''supabase_backup_20240101_003000.json'' False ?bad)) = []"
    using gate [OF b1, THEN conjunct1, rule_format, OF b2] b3 by simp
  have "\<exists>data. dict_get_obj (the (content nameless_backup)) ''data'' = Some data
      \<and> restore_backup_safe users_remote ?e ''supabase_backup_20240101_003500.json'' False ?warn
          = (if False then restore_validated_safe users_remote ?e
                 ''supabase_backup_20240101_003500.json'' None (the (content nameless_backup)) data ?warn
             else restore_validated_safe users_remote ?e ''supabase_backup_20240101_003500.json''
                 (Some (''safety_backup_'' @ now ?e @ ''.json'')) (the (content nameless_backup)) data
                 (?warn\<lparr>safety_dir :=
                    write_file (''safety_backup_'' @ now ?e @ ''.json'') (clock ?e)
                      (safety_document users_remote ?e ?warn) (safety_dir ?warn)\<rparr>))"
    using gate [where skip = False, OF w1, THEN conjunct2, rule_format, OF conjI [OF w2 w3]] .
  with w4 w5 have warned: "restore_backup_safe users_remote ?e
        ''supabase_backup_20240101_003500.json'' False ?warn
      = restore_validated_safe users_remote ?e ''supabase_backup_20240101_003500.json''
          (Some ''safety_backup_20240101_002000.json'')
          (the (content nameless_backup)) (entries_of nameless_backup)
          (?warn\<lparr>safety_dir := [\<lparr>file_name = ''safety_backup_20240101_002000.json'', mtime = 5,
                 content = Some (safety_document users_remote ?e ?warn)\<rparr>]\<rparr>)"
    by (auto simp: write_file_def)
  have "\<exists>data. dict_get_obj (the (content snapshot1)) ''data'' = Some data
      \<and> restore_backup_safe users_remote ?e ''supabase_backup_20240101_000000.json'' True chain_state
          = (if True then restore_validated_safe users_remote ?e
                 ''supabase_backup_20240101_000000.json'' None (the (content snapshot1)) data chain_state
             else restore_validated_safe users_remote ?e ''supabase_backup_20240101_000000.json''
                 (Some (''safety_backup_'' @ now ?e @ ''.json'')) (the (content snapshot1)) data
                 (chain_state\<lparr>safety_dir :=
                    write_file (''safety_backup_'' @ now ?e @ ''.json'') (clock ?e)
                      (safety_document users_remote ?e chain_state) (safety_dir chain_state)\<rparr>))"
    using gate [where skip = True, OF g1, THEN conjunct2, rule_format, OF g2] .
  with g3 have valid: "restore_backup_safe users_remote ?e
        ''supabase_backup_20240101_000000.json'' True chain_state
      = restore_validated_safe users_remote ?e ''supabase_backup_20240101_000000.json'' None
          (the (content snapshot1)) (entries_of snapshot1) chain_state"
    by auto
  from invalid w2 warned w6 valid show ?thesis by (simp only: simp_thms)
qed


text \<open>A \<^verbatim>\<open>data\<close> section that is present and empty is reported as missing.\<close>

theorem validate_backup_data_empty_data_section:
  "validate_backup_data (the (content empty_data_backup)) = Inr (False, [''Missing data in backup''], [])
   \<and> py_subscript (the (content empty_data_backup)) ''data'' = Inr (JObj [])"
  by code_simp



subsection \<open>Writing a batch back\<close>

lemma concat_chunks: "0 < n \<Longrightarrow> concat (chunks n xs) = xs"
  by (induction n xs rule: chunks.induct) auto

lemma chunks_lengths:
  "0 < n \<Longrightarrow> b \<in> set (chunks n xs) \<Longrightarrow> 0 < length b \<and> length b \<le> n"
  by (induction n xs arbitrary: b rule: chunks.induct) (auto split: if_splits)

lemma chunks_full:
  "0 < n \<Longrightarrow> Suc i < length (chunks n xs) \<Longrightarrow> length (chunks n xs ! i) = n"
proof (induction n xs arbitrary: i rule: chunks.induct)
  case (1 n)
  then show ?case by simp
next
  case (2 n x xs)
  show ?case
  proof (cases i)
    case 0
    with "2.prems" have "chunks n (drop n (x # xs)) \<noteq> []" by auto
    then have "drop n (x # xs) \<noteq> []" by (cases "drop n (x # xs)") auto
    then have "n < length (x # xs)" by simp
    with 0 "2.prems" show ?thesis by simp
  next
    case (Suc j)
    with "2.prems" have "Suc j < length (chunks n (drop n (x # xs)))" by simp
    with "2.IH" "2.prems" have "length (chunks n (drop n (x # xs)) ! j) = n" by simp
    with Suc "2.prems" show ?thesis by simp
  qed
qed

lemma plan_table_partition:
  assumes "rows \<noteq> []"
  shows "\<exists>bs. plan_table (JArr rows) = Inr (Batches bs) \<and> concat bs = rows
           \<and> (\<forall>b \<in> set bs. 0 < length b \<and> length b \<le> 100)
           \<and> (\<forall>i. Suc i < length bs \<longrightarrow> length (bs ! i) = 100)"
  using assms
  by (auto simp: plan_table_def default_batch_size_def concat_chunks chunks_full
      dest: chunks_lengths [rotated])

lemma restore_row_effect:
  "\<exists>tl res'. restore_row r table cols row (h, res) = (h @ Upsert table row # tl, res')
      \<and> inserted res' + updated res' + errors res'
          = inserted res + updated res + errors res + 1"
  by (auto simp: restore_row_def send_def count_error_def split: option.splits sum.splits)

lemma fold_restore_row_effect:
  "\<exists>tl res'. fold (restore_row r table cols) rows (h, res) = (h @ tl, res')
      \<and> (\<forall>row \<in> set rows. Upsert table row \<in> set tl)
      \<and> inserted res' + updated res' + errors res'
          = inserted res + updated res + errors res + length rows"
proof (induction rows arbitrary: h res)
  case Nil
  then show ?case by simp
next
  case (Cons row rows)
  obtain tl1 res1 where 1: "restore_row r table cols row (h, res) = (h @ Upsert table row # tl1, res1)"
    and n1: "inserted res1 + updated res1 + errors res1
          = inserted res + updated res + errors res + 1"
    using restore_row_effect by blast
  obtain tl2 res2 where 2: "fold (restore_row r table cols) rows (h @ Upsert table row # tl1, res1)
        = ((h @ Upsert table row # tl1) @ tl2, res2)"
    and all2: "\<forall>row \<in> set rows. Upsert table row \<in> set tl2"
    and n2: "inserted res2 + updated res2 + errors res2
          = inserted res1 + updated res1 + errors res1 + length rows"
    using Cons.IH by blast
  have "fold (restore_row r table cols) (row # rows) (h, res)
      = (h @ (Upsert table row # tl1 @ tl2), res2)"
    using 1 2 by simp
  moreover have "\<forall>x \<in> set (row # rows). Upsert table x \<in> set (Upsert table row # tl1 @ tl2)"
    using all2 by auto
  moreover have "inserted res2 + updated res2 + errors res2
          = inserted res + updated res + errors res + length (row # rows)"
    using n1 n2 by simp
  ultimately show ?case by blast
qed

lemma restore_table_batch_bulk_first:
  "\<exists>tl res. restore_table_batch r table batch cols h
      = (h @ Upsert table (JArr (map (filter_row cols) batch)) # tl, res)
    \<and> inserted res + updated res + errors res = length batch"
proof (cases "write_error r h (Upsert table (JArr (map (filter_row cols) batch)))")
  case None
  then show ?thesis
    by (simp add: restore_table_batch_def send_def no_result_def)
next
  case (Some msg)
  obtain tl res' where f: "fold (restore_row r table cols) (map (filter_row cols) batch)
        (h @ [Upsert table (JArr (map (filter_row cols) batch))], no_result)
      = ((h @ [Upsert table (JArr (map (filter_row cols) batch))]) @ tl, res')"
    and n: "inserted res' + updated res' + errors res'
          = inserted no_result + updated no_result + errors no_result
            + length (map (filter_row cols) batch)"
    using fold_restore_row_effect by blast
  from Some f have "restore_table_batch r table batch cols h
      = (h @ Upsert table (JArr (map (filter_row cols) batch)) # tl,
         res'\<lparr>error_details := take 5 (error_details res')\<rparr>)"
    by (simp add: restore_table_batch_def send_def)
  with n show ?thesis by (simp add: no_result_def)
qed

lemma restore_table_batch_bulk_ok:
  assumes "write_error r h (Upsert table (JArr (map (filter_row cols) batch))) = None"
  shows "restore_table_batch r table batch cols h
      = (h @ [Upsert table (JArr (map (filter_row cols) batch))],
         \<lparr>inserted = length batch, updated = 0, errors = 0, error_details = []\<rparr>)"
  using assms by (simp add: restore_table_batch_def send_def no_result_def)

lemma restore_table_batch_bulk_fails:
  assumes "write_error r h (Upsert table (JArr (map (filter_row cols) batch))) = Some msg"
  shows "\<forall>row \<in> set (map (filter_row cols) batch).
           Upsert table row \<in> set (drop (Suc (length h)) (fst (restore_table_batch r table batch cols h)))"
proof -
  obtain tl res' where f: "fold (restore_row r table cols) (map (filter_row cols) batch)
        (h @ [Upsert table (JArr (map (filter_row cols) batch))], no_result)
      = ((h @ [Upsert table (JArr (map (filter_row cols) batch))]) @ tl, res')"
    and a: "\<forall>row \<in> set (map (filter_row cols) batch). Upsert table row \<in> set tl"
    using fold_restore_row_effect by blast
  from assms f have "fst (restore_table_batch r table batch cols h)
      = (h @ [Upsert table (JArr (map (filter_row cols) batch))]) @ tl"
    by (simp add: restore_table_batch_def send_def)
  then have "drop (Suc (length h)) (fst (restore_table_batch r table batch cols h)) = tl"
    by simp
  with a show ?thesis by simp
qed

lemma restore_row_duplicate_with_id:
  assumes "write_error r h (Upsert table row) = Some msg" and "is_duplicate_error msg"
    and "py_get row ''id'' = Inr v" and "truthy v"
  shows "fst (restore_row r table cols row (h, res))
           = h @ [Upsert table row, Update_eq_id table (filter_row cols row) v]"
    and "write_error r (h @ [Upsert table row]) (Update_eq_id table (filter_row cols row) v) = None
         \<Longrightarrow> snd (restore_row r table cols row (h, res)) = res\<lparr>updated := updated res + 1\<rparr>"
  using assms by (auto simp: restore_row_def send_def split: option.splits)

lemma restore_row_duplicate_without_id:
  assumes "write_error r h (Upsert table row) = Some msg" and "is_duplicate_error msg"
    and "\<forall>v. py_get row ''id'' = Inr v \<longrightarrow> \<not> truthy v"
  shows "restore_row r table cols row (h, res)
           = (h @ [Upsert table row],
              res\<lparr>errors := errors res + 1,
                  error_details := error_details res @ [take 200 msg]\<rparr>)"
  using assms by (auto simp: restore_row_def send_def count_error_def split: option.splits sum.splits)


lemma restore_batch_safe_effect:
  "\<exists>tl res'. restore_batch_safe r table cols batch (h, res)
      = (h @ Upsert table (JArr (map (filter_row cols) batch)) # tl, res')
    \<and> inserted res' + updated res' + errors res'
        = inserted res + updated res + errors res + length batch"
proof (cases "write_error r h (Upsert table (JArr (map (filter_row cols) batch)))")
  case None
  then show ?thesis
    by (simp add: restore_batch_safe_def send_def)
next
  case (Some msg)
  obtain tl res' where f: "fold (restore_row r table cols) (map (filter_row cols) batch)
        (h @ [Upsert table (JArr (map (filter_row cols) batch))], res)
      = ((h @ [Upsert table (JArr (map (filter_row cols) batch))]) @ tl, res')"
    and n: "inserted res' + updated res' + errors res'
          = inserted res + updated res + errors res
            + length (map (filter_row cols) batch)"
    using fold_restore_row_effect by blast
  from Some f have "restore_batch_safe r table cols batch (h, res)
      = (h @ Upsert table (JArr (map (filter_row cols) batch)) # tl, res')"
    by (simp add: restore_batch_safe_def send_def)
  with n show ?thesis by simp
qed

lemma restore_row_duplicate:
  assumes "write_error r h (Upsert table row) = Some msg" and "is_duplicate_error msg"
  shows "(py_get row ''id'' = Inr v \<and> truthy v \<longrightarrow>
            restore_row r table cols row (h, res) =
              (h @ [Upsert table row, Update_eq_id table (filter_row cols row) v],
               if write_error r (h @ [Upsert table row])
                    (Update_eq_id table (filter_row cols row) v) = None
               then res\<lparr>updated := updated res + 1\<rparr>
               else count_error (Some (take 200 msg)) res))
       \<and> ((\<forall>v. py_get row ''id'' = Inr v \<longrightarrow> \<not> truthy v) \<longrightarrow>
            restore_row r table cols row (h, res) =
              (h @ [Upsert table row], count_error (Some (take 200 msg)) res))"
  using assms
  by (auto simp: restore_row_def send_def split: option.splits sum.splits)

text \<open>
  The escalation.  The rows of a table are cut into batches of 100, in order and without
  loss; only the last batch may be shorter.  A batch is first sent as one bulk upsert, and
  every row of it is accounted for: \<open>inserted + updated + errors\<close> grows by the length of
  the batch, in \<^verbatim>\<open>supabase_backup.py\<close> (\<open>restore_table_batch\<close>) and in the loops of
  \<^verbatim>\<open>backup_supabase_safe.py\<close> and \<^verbatim>\<open>backup_supabase.py\<close> (\<open>restore_batch_safe\<close>).  When the bulk
  upsert succeeds nothing else is sent.  When it raises, every row of the filtered batch is
  upserted on its own.  When the upsert of a filtered row raises an error of the
  duplicate-key class: a row whose \<^verbatim>\<open>id\<close> is truthy is updated where \<^verbatim>\<open>id\<close> equals it, and
  counted as updated, or as an error if the update raises too; a row whose \<^verbatim>\<open>id\<close> is missing
  or falsy, or that is not a dict, gets no update and is counted as an error.
\<close>

lemma restore_table_batch_escalation:
  fixes r :: remote and table :: string and cols :: "string list" and batch :: "json list"
  defines "bulk \<equiv> Upsert table (JArr (map (filter_row cols) batch))"
  shows
  "(rows \<noteq> [] \<longrightarrow>
      (\<exists>bs. plan_table (JArr rows) = Inr (Batches bs) \<and> concat bs = rows
         \<and> (\<forall>b \<in> set bs. 0 < length b \<and> length b \<le> 100)
         \<and> (\<forall>i. Suc i < length bs \<longrightarrow> length (bs ! i) = 100)))
   \<and> (\<exists>rest res. restore_table_batch r table batch cols h = (h @ bulk # rest, res)
         \<and> inserted res + updated res + errors res = length batch)
   \<and> (\<exists>rest res'. restore_batch_safe r table cols batch (h, res) = (h @ bulk # rest, res')
         \<and> inserted res' + updated res' + errors res'
             = inserted res + updated res + errors res + length batch)
   \<and> (write_error r h bulk = None \<longrightarrow>
        restore_table_batch r table batch cols h
          = (h @ [bulk], \<lparr>inserted = length batch, updated = 0, errors = 0, error_details = []\<rparr>))
   \<and> (write_error r h bulk \<noteq> None \<longrightarrow>
        (\<forall>row \<in> set (map (filter_row cols) batch).
           Upsert table row
             \<in> set (drop (Suc (length h)) (fst (restore_table_batch r table batch cols h)))))
   \<and> (write_error r h (Upsert table row) = Some msg \<and> is_duplicate_error msg \<longrightarrow>
        (py_get row ''id'' = Inr v \<and> truthy v \<longrightarrow>
           restore_row r table cols row (h, res) =
             (h @ [Upsert table row, Update_eq_id table (filter_row cols row) v],
              if write_error r (h @ [Upsert table row])
                   (Update_eq_id table (filter_row cols row) v) = None
              then res\<lparr>updated := updated res + 1\<rparr>
              else count_error (Some (take 200 msg)) res))
        \<and> ((\<forall>v. py_get row ''id'' = Inr v \<longrightarrow> \<not> truthy v) \<longrightarrow>
             restore_row r table cols row (h, res) =
               (h @ [Upsert table row], count_error (Some (take 200 msg)) res)))"
proof -
  note p = plan_table_partition [of rows]
  note b = restore_table_batch_bulk_first [of r table batch cols h, folded bulk_def]
  note s = restore_batch_safe_effect [of r table cols batch h res, folded bulk_def]
  note ok = restore_table_batch_bulk_ok [of r h table cols batch, folded bulk_def]
  have fails: "write_error r h bulk \<noteq> None \<longrightarrow>
        (\<forall>row \<in> set (map (filter_row cols) batch).
           Upsert table row
             \<in> set (drop (Suc (length h)) (fst (restore_table_batch r table batch cols h))))"
    using restore_table_batch_bulk_fails [of r h table cols batch] unfolding bulk_def by blast
  note d = restore_row_duplicate [of r h table row msg v cols res]
  from p b s ok fails d show ?thesis by blast
qed

text \<open>
  The batch a, b, c against a store that rejects the bulk upsert and the single upserts of
  a and c as duplicates: a is updated by its \<^verbatim>\<open>id\<close>, b is inserted, c has no \<^verbatim>\<open>id\<close> and is
  counted as an error.  250 rows make the batches of 100, 100 and 50.
\<close>

lemma restore_table_batch_escalation_example:
  "restore_table_batch picky_remote ''users'' [row_a, row_b, row_c] [] []
     = ([Upsert ''users'' (JArr [row_a, row_b, row_c]),
         Upsert ''users'' row_a, Update_eq_id ''users'' row_a (JInt 1),
         Upsert ''users'' row_b,
         Upsert ''users'' row_c],
        \<lparr>inserted = 1, updated = 1, errors = 1,
         error_details = [''duplicate key value violates unique constraint'']\<rparr>)
   \<and> Upsert ''users'' row_c
        \<in> set (drop (Suc 0) (fst (restore_table_batch picky_remote ''users'' [row_a, row_b, row_c] [] [])))
   \<and> restore_row picky_remote ''users'' [] row_a ([], no_result)
       = ([Upsert ''users'' row_a, Update_eq_id ''users'' row_a (JInt 1)],
          no_result\<lparr>updated := 1\<rparr>)
   \<and> restore_row picky_remote ''users'' [] row_c ([], no_result)
       = ([Upsert ''users'' row_c],
          count_error (Some ''duplicate key value violates unique constraint'') no_result)
   \<and> plan_table (JArr (replicate 250 row_a))
       = Inr (Batches [replicate 100 row_a, replicate 100 row_a, replicate 50 row_a])"
proof -
  let ?msg = "''duplicate key value violates unique constraint''"
  note esc = restore_table_batch_escalation
    [where r = picky_remote and table = "''users''" and cols = "[]"
       and batch = "[row_a, row_b, row_c]" and h = "[]" and res = no_result and msg = ?msg]
  have whole: "restore_table_batch picky_remote ''users'' [row_a, row_b, row_c] [] []
     = ([Upsert ''users'' (JArr [row_a, row_b, row_c]),
         Upsert ''users'' row_a, Update_eq_id ''users'' row_a (JInt 1),
         Upsert ''users'' row_b,
         Upsert ''users'' row_c],
        \<lparr>inserted = 1, updated = 1, errors = 1, error_details = [?msg]\<rparr>)"
    by code_simp
  have plan: "plan_table (JArr (replicate 250 row_a))
       = Inr (Batches [replicate 100 row_a, replicate 100 row_a, replicate 50 row_a])"
    by code_simp
  have bulk_fails: "write_error picky_remote []
      (Upsert ''users'' (JArr (map (filter_row []) [row_a, row_b, row_c]))) \<noteq> None"
    by code_simp
  have member: "filter_row [] row_c = row_c
      \<and> row_c \<in> set (map (filter_row []) [row_a, row_b, row_c])"
    by (simp add: row_c_def)
  have dup_a: "write_error picky_remote [] (Upsert ''users'' row_a) = Some ?msg
      \<and> is_duplicate_error ?msg"
    by code_simp
  have id_a: "py_get row_a ''id'' = Inr (JInt 1) \<and> truthy (JInt 1)"
    by code_simp
  have upd_a: "filter_row [] row_a = row_a
      \<and> write_error picky_remote ([] @ [Upsert ''users'' row_a])
          (Update_eq_id ''users'' row_a (JInt 1)) = None"
    by code_simp
  have dup_c: "write_error picky_remote [] (Upsert ''users'' row_c) = Some ?msg
      \<and> is_duplicate_error ?msg"
    by code_simp
  have id_c: "\<forall>v. py_get row_c ''id'' = Inr v \<longrightarrow> \<not> truthy v"
    by (simp add: row_c_def dict_get_def)
  have sent: "Upsert ''users'' row_c
        \<in> set (drop (Suc 0) (fst (restore_table_batch picky_remote ''users'' [row_a, row_b, row_c] [] [])))"
    using esc [THEN conjunct2, THEN conjunct2, THEN conjunct2, THEN conjunct2, THEN conjunct1,
        rule_format, OF bulk_fails, of row_c] member
    by simp
  have a: "restore_row picky_remote ''users'' [] row_a ([], no_result)
       = ([Upsert ''users'' row_a, Update_eq_id ''users'' row_a (JInt 1)],
          no_result\<lparr>updated := 1\<rparr>)"
    using esc [where row = row_a and v = "JInt 1", THEN conjunct2, THEN conjunct2, THEN conjunct2,
        THEN conjunct2, THEN conjunct2, rule_format, OF dup_a, THEN conjunct1, rule_format, OF id_a]
      upd_a
    by (simp add: no_result_def)
  have c: "restore_row picky_remote ''users'' [] row_c ([], no_result)
       = ([Upsert ''users'' row_c], count_error (Some ?msg) no_result)"
    using esc [where row = row_c, THEN conjunct2, THEN conjunct2, THEN conjunct2,
        THEN conjunct2, THEN conjunct2, THEN mp, OF dup_c, THEN conjunct2, THEN mp, OF id_c]
    by simp
  from whole sent a c plan show ?thesis by blast
qed

text \<open>
  Claim C8, at the inputs where the code departs from it.  The store rejects the bulk upsert
  and answers the upsert of the single row with a duplicate-key error.  The user a, whose
  \<^verbatim>\<open>id\<close> is 1, is then updated by its \<^verbatim>\<open>id\<close>.  The user z, whose \<^verbatim>\<open>id\<close> is 0, is not: \<^verbatim>\<open>if row_id:\<close>
  is false for it, no update is sent and the row is counted as an error, in
  \<open>restore_table_batch\<close> and in the loop of the two other scripts.  A row of
  \<^verbatim>\<open>room_allotments\<close> with \<^verbatim>\<open>id\<close> 5 is not updated either: the fallback looks for the \<^verbatim>\<open>id\<close> in
  the filtered row, from which the excluded column \<^verbatim>\<open>id\<close> has been taken out already.
\<close>

theorem restore_row_zero_id_not_updated:
  "restore_table_batch picky_remote ''users'' [row_z] [] []
     = ([Upsert ''users'' (JArr [row_z]), Upsert ''users'' row_z],
        \<lparr>inserted = 0, updated = 0, errors = 1,
         error_details = [''duplicate key value violates unique constraint'']\<rparr>)
   \<and> py_get row_z ''id'' = Inr (JInt 0)
   \<and> restore_batch_safe picky_remote ''users'' [] [row_z] ([], no_result)
     = ([Upsert ''users'' (JArr [row_z]), Upsert ''users'' row_z],
        \<lparr>inserted = 0, updated = 0, errors = 1,
         error_details = [''duplicate key value violates unique constraint'']\<rparr>)
   \<and> restore_table_batch picky_remote ''room_allotments'' [room_5]
        (excluded_columns ''room_allotments'') []
     = ([Upsert ''room_allotments'' (JArr [JObj [(''room'', JStr ''101'')]]),
         Upsert ''room_allotments'' (JObj [(''room'', JStr ''101'')])],
        \<lparr>inserted = 0, updated = 0, errors = 1,
         error_details = [''duplicate key value violates unique constraint'']\<rparr>)
   \<and> py_get room_5 ''id'' = Inr (JInt 5)
   \<and> restore_table_batch picky_remote ''users'' [row_a] [] []
     = ([Upsert ''users'' (JArr [row_a]), Upsert ''users'' row_a,
         Update_eq_id ''users'' row_a (JInt 1)],
        \<lparr>inserted = 0, updated = 1, errors = 0, error_details = []\<rparr>)"
  by code_simp


subsection \<open>What the restore leaves alone\<close>



















































lemma shop_restore_safe:
  "requests (snd (restore_backup_safe (simple_store shop_rows)
       (users_env ''20240101_005000'' ''2024-01-01T00:50:00'' 9)
       ''supabase_backup_20240101_004000.json'' True shop_state))
     = [Upsert ''users'' (JArr [row_a, row_b, row_c]),
        Upsert ''users'' row_a, Upsert ''users'' row_b, Upsert ''users'' row_c]"
  by code_simp

lemma shop_restore_aio:
  "requests (snd (restore_backup_aio (simple_store shop_rows)
       (users_env ''20240101_005000'' ''2024-01-01T00:50:00'' 9)
       ''supabase_backup_20240101_004000.json'' True shop_state))
     = [Upsert ''users'' (JArr [row_a, row_b, row_c]),
        Upsert ''users'' row_a, Upsert ''users'' row_b, Upsert ''users'' row_c]"
  by code_simp





end
